theory Spec2Isabelle
  imports Complex_Main
begin

section \<open>Numbers held in a table cell\<close>

text \<open>
  A cell of a pandas column holds a float64. The special values of IEEE 754 are modelled
  as they are (\<open>PInf\<close>, \<open>NInf\<close>, \<open>NaN\<close>): pandas marks an undefined rolling statistic
  with NaN, every comparison with NaN is false, and a numpy division by zero returns an
  infinity or NaN instead of raising. Finite arithmetic is idealised: \<open>Fin r\<close> carries a
  real number, so the operations of this section do not round; overflow and the sign of
  zero are not part of the model (a zero divisor counts as +0). The rounding of float64
  has a section of its own below, for the statement that depends on it. The integer cells 0, 1 and -1 of the \<open>Signal\<close> column are the
  finite numbers \<open>Fin 0\<close>, \<open>Fin 1\<close>, \<open>Fin (-1)\<close>.
\<close>

datatype fl = Fin real | PInf | NInf | NaN

fun fneg :: "fl \<Rightarrow> fl" where
  "fneg (Fin a) = Fin (- a)"
| "fneg PInf = NInf"
| "fneg NInf = PInf"
| "fneg NaN = NaN"

fun fadd :: "fl \<Rightarrow> fl \<Rightarrow> fl" where
  "fadd (Fin a) (Fin b) = Fin (a + b)"
| "fadd NaN _ = NaN"
| "fadd _ NaN = NaN"
| "fadd PInf NInf = NaN"
| "fadd NInf PInf = NaN"
| "fadd PInf _ = PInf"
| "fadd _ PInf = PInf"
| "fadd NInf _ = NInf"
| "fadd _ NInf = NInf"

definition fsub :: "fl \<Rightarrow> fl \<Rightarrow> fl" where
  "fsub x y = fadd x (fneg y)"

fun fmul :: "fl \<Rightarrow> fl \<Rightarrow> fl" where
  "fmul (Fin a) (Fin b) = Fin (a * b)"
| "fmul NaN _ = NaN"
| "fmul _ NaN = NaN"
| "fmul PInf (Fin b) = (if b = 0 then NaN else if 0 < b then PInf else NInf)"
| "fmul NInf (Fin b) = (if b = 0 then NaN else if 0 < b then NInf else PInf)"
| "fmul (Fin a) PInf = (if a = 0 then NaN else if 0 < a then PInf else NInf)"
| "fmul (Fin a) NInf = (if a = 0 then NaN else if 0 < a then NInf else PInf)"
| "fmul PInf PInf = PInf"
| "fmul NInf NInf = PInf"
| "fmul PInf NInf = NInf"
| "fmul NInf PInf = NInf"

fun fdiv :: "fl \<Rightarrow> fl \<Rightarrow> fl" where
  "fdiv (Fin a) (Fin b) =
     (if b = 0 then (if a = 0 then NaN else if 0 < a then PInf else NInf)
      else Fin (a / b))"
| "fdiv NaN _ = NaN"
| "fdiv _ NaN = NaN"
| "fdiv (Fin a) PInf = Fin 0"
| "fdiv (Fin a) NInf = Fin 0"
| "fdiv PInf (Fin b) = (if 0 \<le> b then PInf else NInf)"
| "fdiv NInf (Fin b) = (if 0 \<le> b then NInf else PInf)"
| "fdiv PInf PInf = NaN"
| "fdiv PInf NInf = NaN"
| "fdiv NInf PInf = NaN"
| "fdiv NInf NInf = NaN"

fun fsqrt :: "fl \<Rightarrow> fl" where
  "fsqrt (Fin a) = (if a < 0 then NaN else Fin (sqrt a))"
| "fsqrt PInf = PInf"
| "fsqrt NInf = NaN"
| "fsqrt NaN = NaN"

text \<open>The comparisons \<open><\<close> and \<open>\<le>\<close>: false as soon as one side is NaN.\<close>

fun flt :: "fl \<Rightarrow> fl \<Rightarrow> bool" where
  "flt (Fin a) (Fin b) = (a < b)"
| "flt NaN _ = False"
| "flt _ NaN = False"
| "flt _ NInf = False"
| "flt PInf _ = False"
| "flt NInf _ = True"
| "flt _ PInf = True"

fun fle :: "fl \<Rightarrow> fl \<Rightarrow> bool" where
  "fle (Fin a) (Fin b) = (a \<le> b)"
| "fle NaN _ = False"
| "fle _ NaN = False"
| "fle NInf _ = True"
| "fle _ PInf = True"
| "fle _ NInf = False"
| "fle PInf _ = False"

definition fgt :: "fl \<Rightarrow> fl \<Rightarrow> bool" where
  "fgt x y = flt y x"

definition fge :: "fl \<Rightarrow> fl \<Rightarrow> bool" where
  "fge x y = fle y x"

section \<open>Series: element-wise operations and rolling windows\<close>

definition fsum :: "fl list \<Rightarrow> fl" where
  "fsum xs = foldr fadd xs (Fin 0)"

text \<open>
  Mean and sample standard deviation of one window, as pandas computes them: the mean needs
  at least one observation, the variance more observations than \<open>ddof = 1\<close>, and its
  denominator is the number of observations minus \<open>ddof\<close>.
\<close>

definition fmean :: "fl list \<Rightarrow> fl" where
  "fmean xs = (if xs = [] then NaN else fdiv (fsum xs) (Fin (real (length xs))))"

definition fstd :: "fl list \<Rightarrow> fl" where
  "fstd xs =
     (if length xs \<le> 1 then NaN
      else fsqrt (fdiv (fsum (map (\<lambda>x. fmul (fsub x (fmean xs)) (fsub x (fmean xs))) xs))
                       (Fin (real (length xs) - 1))))"

text \<open>
  \<open>Series.rolling(window=w)\<close> with the default \<open>min_periods = w\<close>: the window of bar
  \<open>i\<close> is the \<open>w\<close> bars ending at \<open>i\<close>, and the statistic is NaN while fewer than
  \<open>w\<close> bars are available. A NaN inside the window makes the sums NaN, which is what
  pandas returns for a window with fewer than \<open>min_periods\<close> valid observations.
\<close>

definition window_at :: "nat \<Rightarrow> fl list \<Rightarrow> nat \<Rightarrow> fl list" where
  "window_at w xs i = take w (drop (i + 1 - w) xs)"

definition rolling :: "(fl list \<Rightarrow> fl) \<Rightarrow> nat \<Rightarrow> fl list \<Rightarrow> fl list" where
  "rolling stat w xs =
     map (\<lambda>i. if i + 1 < w then NaN else stat (window_at w xs i)) [0..<length xs]"

definition rolling_mean :: "nat \<Rightarrow> fl list \<Rightarrow> fl list" where
  "rolling_mean w xs = rolling fmean w xs"

definition rolling_std :: "nat \<Rightarrow> fl list \<Rightarrow> fl list" where
  "rolling_std w xs = rolling fstd w xs"

definition series_add :: "fl list \<Rightarrow> fl list \<Rightarrow> fl list" where
  "series_add xs ys = map (\<lambda>(x, y). fadd x y) (zip xs ys)"

definition series_sub :: "fl list \<Rightarrow> fl list \<Rightarrow> fl list" where
  "series_sub xs ys = map (\<lambda>(x, y). fsub x y) (zip xs ys)"

definition series_lt :: "fl list \<Rightarrow> fl list \<Rightarrow> bool list" where
  "series_lt xs ys = map (\<lambda>(x, y). flt x y) (zip xs ys)"

definition series_gt :: "fl list \<Rightarrow> fl list \<Rightarrow> bool list" where
  "series_gt xs ys = map (\<lambda>(x, y). fgt x y) (zip xs ys)"

definition scalar_mul :: "fl \<Rightarrow> fl list \<Rightarrow> fl list" where
  "scalar_mul k xs = map (fmul k) xs"

text \<open>\<open>data.loc[mask, col] = v\<close>: the rows where the mask is true receive \<open>v\<close>.\<close>

definition loc_assign :: "bool list \<Rightarrow> fl \<Rightarrow> fl list \<Rightarrow> fl list" where
  "loc_assign msk v col = map (\<lambda>(m, x). if m then v else x) (zip msk col)"

section \<open>Data frames in a store\<close>

text \<open>
  A DataFrame is an index of timestamps (day numbers) and named columns of the index's
  length. The functions of \<open>app.py\<close> receive a reference to a DataFrame, assign columns
  to it in place and return the reference, so frames live in a store and the functions
  take and return the store together with the address.
\<close>

datatype error = KeyError string | IndexError

type_synonym addr = nat

record frame =
  index :: "int list"
  cols :: "string \<rightharpoonup> fl list"

type_synonym store = "addr \<Rightarrow> frame"

definition getitem :: "store \<Rightarrow> addr \<Rightarrow> string \<Rightarrow> error + fl list" where
  "getitem \<sigma> data c = (case cols (\<sigma> data) c of None \<Rightarrow> Inl (KeyError c) | Some xs \<Rightarrow> Inr xs)"

definition setitem :: "store \<Rightarrow> addr \<Rightarrow> string \<Rightarrow> fl list \<Rightarrow> store" where
  "setitem \<sigma> data c xs = \<sigma>(data := (\<sigma> data)\<lparr>cols := (cols (\<sigma> data))(c \<mapsto> xs)\<rparr>)"

text \<open>\<open>data[c] = v\<close> with a scalar \<open>v\<close>: one copy of \<open>v\<close> per row of the index.\<close>

definition setitem_scalar :: "store \<Rightarrow> addr \<Rightarrow> string \<Rightarrow> fl \<Rightarrow> store" where
  "setitem_scalar \<sigma> data c v = setitem \<sigma> data c (replicate (length (index (\<sigma> data))) v)"

text \<open>\<open>series.iloc[i]\<close>: a negative position counts from the end, out of range raises.\<close>

definition iloc :: "fl list \<Rightarrow> int \<Rightarrow> error + fl" where
  "iloc xs i =
     (if 0 \<le> i \<and> i < int (length xs) then Inr (xs ! nat i)
      else if i < 0 \<and> - i \<le> int (length xs) then Inr (xs ! nat (int (length xs) + i))
      else Inl IndexError)"

section \<open>The functions of app.py\<close>

text \<open>
  An exception ends the function: \<open>ebind m f\<close> runs \<open>f\<close> on the value of \<open>m\<close>
  unless \<open>m\<close> raised.
\<close>

definition ebind :: "error + 'a \<Rightarrow> ('a \<Rightarrow> error + 'b) \<Rightarrow> error + 'b" where
  "ebind m f = (case m of Inl e \<Rightarrow> Inl e | Inr x \<Rightarrow> f x)"

text \<open>
  Each function reads \<open>data['Close']\<close> first, which raises KeyError when the column is
  missing; every later read is of a column that exists by then, so an error leaves the
  store as it was and the error result carries no store.
\<close>

definition calculate_bollinger_bands ::
  "store \<Rightarrow> addr \<Rightarrow> nat \<Rightarrow> fl \<Rightarrow> error + (store \<times> addr)" where
  "calculate_bollinger_bands \<sigma> data window no_of_std =
     ebind (getitem \<sigma> data ''Close'') (\<lambda>close1.
     let \<sigma>1 = setitem \<sigma> data ''SMA'' (rolling_mean window close1) in
     ebind (getitem \<sigma>1 data ''Close'') (\<lambda>close2.
     let \<sigma>2 = setitem \<sigma>1 data ''STD'' (rolling_std window close2) in
     ebind (getitem \<sigma>2 data ''SMA'') (\<lambda>sma1.
     ebind (getitem \<sigma>2 data ''STD'') (\<lambda>std1.
     let \<sigma>3 = setitem \<sigma>2 data ''Upper Band'' (series_add sma1 (scalar_mul no_of_std std1)) in
     ebind (getitem \<sigma>3 data ''SMA'') (\<lambda>sma2.
     ebind (getitem \<sigma>3 data ''STD'') (\<lambda>std2.
     let \<sigma>4 = setitem \<sigma>3 data ''Lower Band'' (series_sub sma2 (scalar_mul no_of_std std2)) in
     Inr (\<sigma>4, data)))))))"

definition calculate_sma ::
  "store \<Rightarrow> addr \<Rightarrow> nat \<Rightarrow> nat \<Rightarrow> error + (store \<times> addr)" where
  "calculate_sma \<sigma> data short_window long_window =
     ebind (getitem \<sigma> data ''Close'') (\<lambda>close1.
     let \<sigma>1 = setitem \<sigma> data ''SMA_Short'' (rolling_mean short_window close1) in
     ebind (getitem \<sigma>1 data ''Close'') (\<lambda>close2.
     let \<sigma>2 = setitem \<sigma>1 data ''SMA_Long'' (rolling_mean long_window close2) in
     Inr (\<sigma>2, data)))"

text \<open>
  \<open>apply_strategy\<close> calls the indicator functions with their default arguments
  (\<open>window=20, no_of_std=2\<close>; \<open>short_window=50, long_window=200\<close>) and rebinds
  \<open>data\<close> to the reference they return. A strategy string that is neither of the two
  falls through both branches.
\<close>

definition apply_strategy :: "store \<Rightarrow> addr \<Rightarrow> string \<Rightarrow> error + (store \<times> addr)" where
  "apply_strategy \<sigma> data strategy =
     (if strategy = ''Bollinger Bands'' then
        ebind (calculate_bollinger_bands \<sigma> data 20 (Fin 2)) (\<lambda>(\<sigma>1, data1).
        let \<sigma>2 = setitem_scalar \<sigma>1 data1 ''Signal'' (Fin 0) in
        ebind (getitem \<sigma>2 data1 ''Close'') (\<lambda>close1.
        ebind (getitem \<sigma>2 data1 ''Lower Band'') (\<lambda>lower.
        ebind (getitem \<sigma>2 data1 ''Signal'') (\<lambda>sig1.
        let \<sigma>3 = setitem \<sigma>2 data1 ''Signal'' (loc_assign (series_lt close1 lower) (Fin 1) sig1) in
        ebind (getitem \<sigma>3 data1 ''Close'') (\<lambda>close2.
        ebind (getitem \<sigma>3 data1 ''Upper Band'') (\<lambda>upper.
        ebind (getitem \<sigma>3 data1 ''Signal'') (\<lambda>sig2.
        let \<sigma>4 = setitem \<sigma>3 data1 ''Signal''
                   (loc_assign (series_gt close2 upper) (Fin (- 1)) sig2) in
        Inr (\<sigma>4, data1))))))))
      else if strategy = ''SMA Crossover'' then
        ebind (calculate_sma \<sigma> data 50 200) (\<lambda>(\<sigma>1, data1).
        let \<sigma>2 = setitem_scalar \<sigma>1 data1 ''Signal'' (Fin 0) in
        ebind (getitem \<sigma>2 data1 ''SMA_Short'') (\<lambda>short1.
        ebind (getitem \<sigma>2 data1 ''SMA_Long'') (\<lambda>long1.
        ebind (getitem \<sigma>2 data1 ''Signal'') (\<lambda>sig1.
        let \<sigma>3 = setitem \<sigma>2 data1 ''Signal'' (loc_assign (series_gt short1 long1) (Fin 1) sig1) in
        ebind (getitem \<sigma>3 data1 ''SMA_Short'') (\<lambda>short2.
        ebind (getitem \<sigma>3 data1 ''SMA_Long'') (\<lambda>long2.
        ebind (getitem \<sigma>3 data1 ''Signal'') (\<lambda>sig2.
        let \<sigma>4 = setitem \<sigma>3 data1 ''Signal''
                   (loc_assign (series_lt short2 long2) (Fin (- 1)) sig2) in
        Inr (\<sigma>4, data1))))))))
      else Inr (\<sigma>, data))"

definition style_multipliers :: "string \<rightharpoonup> real" where
  "style_multipliers =
     [''Aggressive'' \<mapsto> 3 / 2, ''Moderate'' \<mapsto> 1, ''Passive'' \<mapsto> 3 / 4]"

text \<open>\<open>style_multipliers.get(style, 1.0)\<close>\<close>

definition multiplier_of :: "string \<Rightarrow> real" where
  "multiplier_of style = (case style_multipliers style of None \<Rightarrow> 1 | Some m \<Rightarrow> m)"

text \<open>
  The result is the pair \<open>(growth, roi)\<close>; the trajectory is assigned to the column
  \<open>f'{style} Growth'\<close> of the frame passed in.
\<close>

definition calculate_investment_growth ::
  "store \<Rightarrow> addr \<Rightarrow> real \<Rightarrow> string \<Rightarrow> error + (store \<times> fl \<times> fl)" where
  "calculate_investment_growth \<sigma> data amount style =
     ebind (getitem \<sigma> data ''Close'') (\<lambda>close1.
     ebind (iloc close1 0) (\<lambda>start_price.
     ebind (getitem \<sigma> data ''Close'') (\<lambda>close2.
     ebind (iloc close2 (- 1)) (\<lambda>end_price.
     let multiplier = multiplier_of style;
         growth = fmul (fmul (fdiv end_price start_price) (Fin amount)) (Fin multiplier);
         roi = fmul (fdiv (fsub growth (Fin amount)) (Fin amount)) (Fin 100)
     in
     ebind (getitem \<sigma> data ''Close'') (\<lambda>close3.
     let \<sigma>1 = setitem \<sigma> data (style @ '' Growth'')
                (map (\<lambda>c. fmul (fmul (fdiv c start_price) (Fin amount)) (Fin multiplier)) close3)
     in Inr (\<sigma>1, growth, roi))))))"

section \<open>Closed forms, observations and the formulas of the specification\<close>

text \<open>
  The expression of lines 41 and 43 of \<open>app.py\<close>: the value of one close under a start
  price, an amount and a style.
\<close>

definition growth_value :: "fl \<Rightarrow> fl \<Rightarrow> real \<Rightarrow> string \<Rightarrow> fl" where
  "growth_value c start_close amount style =
     fmul (fmul (fdiv c start_close) (Fin amount)) (Fin (multiplier_of style))"

text \<open>
  The Signal column after its three assignments: 0 everywhere, then 1 under the buy mask,
  then -1 under the sell mask.
\<close>

definition signal_column :: "bool list \<Rightarrow> bool list \<Rightarrow> nat \<Rightarrow> fl list" where
  "signal_column buy sell n = loc_assign sell (Fin (- 1)) (loc_assign buy (Fin 1) (replicate n (Fin 0)))"

text \<open>What a caller reads from a result: the growth, a column, a cell.\<close>

definition final_growth :: "store \<Rightarrow> addr \<Rightarrow> real \<Rightarrow> string \<Rightarrow> error + fl" where
  "final_growth \<sigma> data amount style =
     ebind (calculate_investment_growth \<sigma> data amount style) (\<lambda>(\<sigma>', growth, roi). Inr growth)"

definition column_after :: "error + (store \<times> 'r) \<Rightarrow> addr \<Rightarrow> string \<Rightarrow> error + fl list" where
  "column_after res a c = ebind res (\<lambda>(\<sigma>', _). getitem \<sigma>' a c)"

definition cell_after :: "error + (store \<times> 'r) \<Rightarrow> addr \<Rightarrow> string \<Rightarrow> nat \<Rightarrow> error + fl" where
  "cell_after res a c i = ebind (column_after res a c) (\<lambda>xs. Inr (xs ! i))"

text \<open>
  The formulas in the words of the specification: ROI as
  \<open>(finalGrowth / principal - 1) * 100\<close>, the mean of a window, and the sample standard
  deviation with the \<open>N - 1\<close> denominator.
\<close>

definition roi_percent_spec :: "fl \<Rightarrow> real \<Rightarrow> fl" where
  "roi_percent_spec finalGrowth amount =
     fmul (fsub (fdiv finalGrowth (Fin amount)) (Fin 1)) (Fin 100)"

definition mean :: "real list \<Rightarrow> real" where
  "mean rs = sum_list rs / real (length rs)"

definition sample_std :: "real list \<Rightarrow> real" where
  "sample_std rs = sqrt ((\<Sum>x\<leftarrow>rs. (x - mean rs)\<^sup>2) / (real (length rs) - 1))"

section \<open>Float64 rounding made explicit\<close>

text \<open>
  The sections above compute with exact reals. Where a statement compares two quantities
  that the code computes by different float64 operations, the rounding of each operation
  decides, so it is written out here. \<open>round64\<close> rounds a real to binary64: 53
  significant bits, to nearest, ties to even. \<open>binade n x\<close> searches the exponent
  \<open>e\<close> with \<open>2^e \<le> x < 2^(e+1)\<close> in at most \<open>n\<close> steps; 2200 steps cover every
  magnitude a float64 can hold. Overflow to infinity and the reduced precision of
  subnormal numbers are not modelled.
\<close>

fun binade :: "nat \<Rightarrow> real \<Rightarrow> int" where
  "binade 0 x = 0"
| "binade (Suc n) x =
     (if 2 \<le> x then binade n (x / 2) + 1
      else if x < 1 then binade n (x * 2) - 1
      else 0)"

definition round_half_even :: "real \<Rightarrow> int" where
  "round_half_even q =
     (if q - of_int \<lfloor>q\<rfloor> < 1 / 2 then \<lfloor>q\<rfloor>
      else if 1 / 2 < q - of_int \<lfloor>q\<rfloor> then \<lfloor>q\<rfloor> + 1
      else if even \<lfloor>q\<rfloor> then \<lfloor>q\<rfloor> else \<lfloor>q\<rfloor> + 1)"

definition round64 :: "real \<Rightarrow> real" where
  "round64 x =
     (if x = 0 then 0
      else of_int (round_half_even (x / 2 powi (binade 2200 \<bar>x\<bar> - 52)))
             * 2 powi (binade 2200 \<bar>x\<bar> - 52))"

text \<open>
  The result of one arithmetic operation, rounded by \<open>rnd\<close>; infinities and NaN are
  kept as they are.
\<close>

definition rounded :: "(real \<Rightarrow> real) \<Rightarrow> fl \<Rightarrow> fl" where
  "rounded rnd x = (case x of Fin a \<Rightarrow> Fin (rnd a) | PInf \<Rightarrow> PInf | NInf \<Rightarrow> NInf | NaN \<Rightarrow> NaN)"

text \<open>
  \<open>calculate_investment_growth\<close> with the result of every arithmetic operation rounded
  by \<open>rnd\<close>, and \<open>amount\<close> converted to float64 where it enters an operation:
  \<open>rnd = round64\<close> is the float64 arithmetic of the code, \<open>rnd = (\<lambda>x. x)\<close> the exact
  arithmetic of the definition above. The literals 100, 1.5, 1.0 and 0.75 are float64
  numbers already.
\<close>

definition calculate_investment_growth_rnd ::
  "(real \<Rightarrow> real) \<Rightarrow> store \<Rightarrow> addr \<Rightarrow> real \<Rightarrow> string \<Rightarrow> error + (store \<times> fl \<times> fl)" where
  "calculate_investment_growth_rnd rnd \<sigma> data amount style =
     ebind (getitem \<sigma> data ''Close'') (\<lambda>close1.
     ebind (iloc close1 0) (\<lambda>start_price.
     ebind (getitem \<sigma> data ''Close'') (\<lambda>close2.
     ebind (iloc close2 (- 1)) (\<lambda>end_price.
     let multiplier = multiplier_of style;
         growth = rounded rnd (fmul (rounded rnd (fmul (rounded rnd (fdiv end_price start_price))
                     (Fin (rnd amount)))) (Fin multiplier));
         roi = rounded rnd (fmul (rounded rnd (fdiv (rounded rnd (fsub growth (Fin (rnd amount))))
                     (Fin (rnd amount)))) (Fin 100))
     in
     ebind (getitem \<sigma> data ''Close'') (\<lambda>close3.
     let \<sigma>1 = setitem \<sigma> data (style @ '' Growth'')
                (map (\<lambda>c. rounded rnd (fmul (rounded rnd (fmul (rounded rnd (fdiv c start_price))
                     (Fin (rnd amount)))) (Fin multiplier))) close3)
     in Inr (\<sigma>1, growth, roi))))))"

text \<open>
  The two ROI formulas over the returned growth, operation by operation:
  \<open>(final - principal) / principal * 100\<close>, as the data model of the specification and
  line 42 have it, and \<open>(finalGrowth / principal - 1) * 100\<close>, as the ROI invariant of
  the specification has it.
\<close>

definition roi_percent_rnd :: "(real \<Rightarrow> real) \<Rightarrow> fl \<Rightarrow> real \<Rightarrow> fl" where
  "roi_percent_rnd rnd final amount =
     rounded rnd (fmul (rounded rnd (fdiv (rounded rnd (fsub final (Fin (rnd amount))))
        (Fin (rnd amount)))) (Fin 100))"

definition roi_percent_spec_rnd :: "(real \<Rightarrow> real) \<Rightarrow> fl \<Rightarrow> real \<Rightarrow> fl" where
  "roi_percent_spec_rnd rnd finalGrowth amount =
     rounded rnd (fmul (rounded rnd (fsub (rounded rnd (fdiv finalGrowth (Fin (rnd amount))))
        (Fin 1))) (Fin 100))"

section \<open>Example tables\<close>

text \<open>
  A table of bars whose four price columns all hold the given closes, indexed by day
  number; a store holding one table at every address; a store of two tables; twenty closes
  with mean 100.5 and sample variance 1; and 150 closes of 50 followed by 50 closes of 100.
\<close>

definition bars :: "real list \<Rightarrow> frame" where
  "bars cs = \<lparr>index = map int [0..<length cs],
             cols = [''Open'' \<mapsto> map Fin cs, ''High'' \<mapsto> map Fin cs,
                     ''Low'' \<mapsto> map Fin cs, ''Close'' \<mapsto> map Fin cs]\<rparr>"

definition store_of :: "frame \<Rightarrow> store" where
  "store_of f = (\<lambda>_. f)"

definition two_tables :: store where
  "two_tables = (\<lambda>_. bars [])(0 := bars [100, 110, 121], 1 := bars [7, 8])"

definition dip_closes :: "real list" where
  "dip_closes = [102, 101, 101, 101, 101, 101, 101, 101, 101, 101, 101, 101, 101, 101,
                 99, 99, 99, 100, 100, 98]"

definition rally_closes :: "real list" where
  "rally_closes = replicate 150 50 @ replicate 50 100"

section \<open>Reading and writing columns\<close>

lemma getitem_setitem:
  "getitem (setitem \<sigma> a c xs) a c' = (if c' = c then Inr xs else getitem \<sigma> a c')"
  by (simp add: getitem_def setitem_def)

lemma index_setitem: "index (setitem \<sigma> a c xs b) = index (\<sigma> b)"
  by (simp add: setitem_def)

lemma setitem_other: "b \<noteq> a \<Longrightarrow> setitem \<sigma> a c xs b = \<sigma> b"
  by (simp add: setitem_def)

lemma cols_setitem:
  "cols (setitem \<sigma> a c xs a) c' = (if c' = c then Some xs else cols (\<sigma> a) c')"
  by (simp add: setitem_def)

lemma ebind_Inr: "ebind (Inr x) f = f x"
  by (simp add: ebind_def)

lemma ebind_Inl: "ebind (Inl e) f = Inl e"
  by (simp add: ebind_def)

section \<open>Helper lemmas\<close>

lemma iloc_first: "xs \<noteq> [] \<Longrightarrow> iloc xs 0 = Inr (xs ! 0)"
  by (simp add: iloc_def)

lemma iloc_last: "xs \<noteq> [] \<Longrightarrow> iloc xs (- 1) = Inr (last xs)"
  by (cases xs rule: rev_cases) (simp_all add: iloc_def nat_add_distrib)

lemma iloc_empty: "iloc [] i = Inl IndexError"
  by (simp add: iloc_def)

lemma growth_result:
  assumes "getitem \<sigma> a ''Close'' = Inr cl" and "cl \<noteq> []"
  shows "calculate_investment_growth \<sigma> a p style =
     Inr (setitem \<sigma> a (style @ '' Growth'') (map (\<lambda>c. growth_value c (cl ! 0) p style) cl),
          growth_value (last cl) (cl ! 0) p style,
          fmul (fdiv (fsub (growth_value (last cl) (cl ! 0) p style) (Fin p)) (Fin p)) (Fin 100))"
  using assms
  by (simp add: calculate_investment_growth_def ebind_Inr iloc_first iloc_last Let_def
      growth_value_def)

lemma growth_empty:
  assumes "getitem \<sigma> a ''Close'' = Inr []"
  shows "calculate_investment_growth \<sigma> a p style = Inl IndexError"
  using assms
  by (simp add: calculate_investment_growth_def ebind_Inr ebind_Inl iloc_empty)

lemma roi_code_eq_spec:
  "fmul (fdiv (fsub g (Fin p)) (Fin p)) (Fin 100) = roi_percent_spec g p"
  by (cases g) (auto simp: roi_percent_spec_def fsub_def field_simps)

lemma multiplier_of_simps:
  "multiplier_of ''Aggressive'' = 3 / 2" "multiplier_of ''Moderate'' = 1"
  "multiplier_of ''Passive'' = 3 / 4"
  "style \<noteq> ''Aggressive'' \<Longrightarrow> style \<noteq> ''Moderate'' \<Longrightarrow> style \<noteq> ''Passive'' \<Longrightarrow> multiplier_of style = 1"
  by (simp_all add: multiplier_of_def style_multipliers_def)

lemma getitem_bars: "getitem (store_of (bars cs)) a ''Close'' = Inr (map Fin cs)"
  by (simp add: getitem_def store_of_def bars_def)

lemma final_growth_result:
  assumes "getitem \<sigma> a ''Close'' = Inr cl" and "cl \<noteq> []"
  shows "final_growth \<sigma> a p style = Inr (growth_value (last cl) (cl ! 0) p style)"
  by (simp add: final_growth_def growth_result [OF assms] ebind_Inr)

lemma nonfinite_mul: "x \<in> {PInf, NInf, NaN} \<Longrightarrow> fmul x (Fin b) \<in> {PInf, NInf, NaN}"
  by (cases "b = 0"; cases "0 < b"; auto)

lemma div_zero_nonfinite: "fdiv x (Fin 0) \<in> {PInf, NInf, NaN}"
  by (cases x) auto

lemma length_rolling: "length (rolling stat w xs) = length xs"
  by (simp add: rolling_def)

lemma nth_rolling:
  "i < length xs \<Longrightarrow>
   rolling stat w xs ! i = (if i + 1 < w then NaN else stat (window_at w xs i))"
  by (simp add: rolling_def)

lemma length_series [simp]:
  "length (series_add xs ys) = min (length xs) (length ys)"
  "length (series_sub xs ys) = min (length xs) (length ys)"
  "length (series_lt xs ys) = min (length xs) (length ys)"
  "length (series_gt xs ys) = min (length xs) (length ys)"
  "length (scalar_mul k xs) = length xs"
  "length (loc_assign m v xs) = min (length m) (length xs)"
  "length (rolling_mean w xs) = length xs"
  "length (rolling_std w xs) = length xs"
  by (simp_all add: series_add_def series_sub_def series_lt_def series_gt_def scalar_mul_def
      loc_assign_def rolling_mean_def rolling_std_def length_rolling)

lemma nth_series:
  "i < length xs \<Longrightarrow> i < length ys \<Longrightarrow> series_add xs ys ! i = fadd (xs ! i) (ys ! i)"
  "i < length xs \<Longrightarrow> i < length ys \<Longrightarrow> series_sub xs ys ! i = fsub (xs ! i) (ys ! i)"
  "i < length xs \<Longrightarrow> i < length ys \<Longrightarrow> series_lt xs ys ! i = flt (xs ! i) (ys ! i)"
  "i < length xs \<Longrightarrow> i < length ys \<Longrightarrow> series_gt xs ys ! i = fgt (xs ! i) (ys ! i)"
  "i < length xs \<Longrightarrow> scalar_mul k xs ! i = fmul k (xs ! i)"
  by (simp_all add: series_add_def series_sub_def series_lt_def series_gt_def scalar_mul_def)

lemma nth_loc_assign:
  "i < length m \<Longrightarrow> i < length xs \<Longrightarrow>
   loc_assign m v xs ! i = (if m ! i then v else xs ! i)"
  by (simp add: loc_assign_def)

lemma calculate_bollinger_bands_result:
  assumes "getitem \<sigma> a ''Close'' = Inr cl"
  shows "calculate_bollinger_bands \<sigma> a w k =
    Inr (setitem (setitem (setitem (setitem \<sigma> a ''SMA'' (rolling_mean w cl))
            a ''STD'' (rolling_std w cl))
            a ''Upper Band'' (series_add (rolling_mean w cl) (scalar_mul k (rolling_std w cl))))
            a ''Lower Band'' (series_sub (rolling_mean w cl) (scalar_mul k (rolling_std w cl))),
         a)"
  using assms
  by (simp add: calculate_bollinger_bands_def getitem_setitem ebind_Inr Let_def)

lemma calculate_sma_result:
  assumes "getitem \<sigma> a ''Close'' = Inr cl"
  shows "calculate_sma \<sigma> a sw lw =
    Inr (setitem (setitem \<sigma> a ''SMA_Short'' (rolling_mean sw cl))
            a ''SMA_Long'' (rolling_mean lw cl), a)"
  using assms
  by (simp add: calculate_sma_def getitem_setitem ebind_Inr Let_def)

lemma nth_signal_column:
  "i < n \<Longrightarrow> i < length buy \<Longrightarrow> i < length sell \<Longrightarrow>
   signal_column buy sell n ! i = (if sell ! i then Fin (- 1) else if buy ! i then Fin 1 else Fin 0)"
  by (simp add: signal_column_def nth_loc_assign)

lemma setitem_overwrite: "setitem (setitem \<sigma> a c xs) a c ys = setitem \<sigma> a c ys"
  by (simp add: setitem_def)

lemma apply_strategy_bollinger_result:
  assumes "getitem \<sigma> a ''Close'' = Inr cl"
  shows "apply_strategy \<sigma> a ''Bollinger Bands'' =
    Inr (setitem (setitem (setitem (setitem (setitem \<sigma> a ''SMA'' (rolling_mean 20 cl))
            a ''STD'' (rolling_std 20 cl))
            a ''Upper Band'' (series_add (rolling_mean 20 cl) (scalar_mul (Fin 2) (rolling_std 20 cl))))
            a ''Lower Band'' (series_sub (rolling_mean 20 cl) (scalar_mul (Fin 2) (rolling_std 20 cl))))
            a ''Signal''
              (signal_column
                 (series_lt cl (series_sub (rolling_mean 20 cl) (scalar_mul (Fin 2) (rolling_std 20 cl))))
                 (series_gt cl (series_add (rolling_mean 20 cl) (scalar_mul (Fin 2) (rolling_std 20 cl))))
                 (length (index (\<sigma> a)))),
         a)"
  using assms
  by (simp add: apply_strategy_def calculate_bollinger_bands_result [OF assms] ebind_Inr
      setitem_scalar_def getitem_setitem index_setitem Let_def signal_column_def
      setitem_overwrite)

lemma apply_strategy_sma_result:
  assumes "getitem \<sigma> a ''Close'' = Inr cl"
  shows "apply_strategy \<sigma> a ''SMA Crossover'' =
    Inr (setitem (setitem (setitem \<sigma> a ''SMA_Short'' (rolling_mean 50 cl))
            a ''SMA_Long'' (rolling_mean 200 cl))
            a ''Signal''
              (signal_column
                 (series_gt (rolling_mean 50 cl) (rolling_mean 200 cl))
                 (series_lt (rolling_mean 50 cl) (rolling_mean 200 cl))
                 (length (index (\<sigma> a)))),
         a)"
  using assms
  by (simp add: apply_strategy_def calculate_sma_result [OF assms] ebind_Inr
      setitem_scalar_def getitem_setitem index_setitem Let_def signal_column_def
      setitem_overwrite)

lemma fsqrt_Fin_nonneg: "fsqrt x = Fin r \<Longrightarrow> 0 \<le> r"
  by (cases x) (auto split: if_splits)

lemma fstd_Fin_nonneg: "fstd xs = Fin r \<Longrightarrow> 0 \<le> r"
  by (auto simp: fstd_def split: if_splits dest: fsqrt_Fin_nonneg)

lemma rolling_std_Fin_nonneg:
  "i < length xs \<Longrightarrow> rolling_std w xs ! i = Fin r \<Longrightarrow> 0 \<le> r"
  by (auto simp: rolling_std_def nth_rolling split: if_splits dest: fstd_Fin_nonneg)

lemma fadd_twice_Fin:
  "fadd x (fmul (Fin 2) y) = Fin u \<Longrightarrow> \<exists>m sd. x = Fin m \<and> y = Fin sd \<and> u = m + 2 * sd"
  by (cases x; cases y) (auto split: if_splits)

lemma fsub_twice_Fin:
  "fsub x (fmul (Fin 2) y) = Fin l \<Longrightarrow> \<exists>m sd. x = Fin m \<and> y = Fin sd \<and> l = m - 2 * sd"
  by (cases x; cases y) (auto simp: fsub_def split: if_splits)

lemma bands_ordered:
  assumes "i < length cl"
    and "series_sub (rolling_mean 20 cl) (scalar_mul (Fin 2) (rolling_std 20 cl)) ! i = Fin l"
    and "series_add (rolling_mean 20 cl) (scalar_mul (Fin 2) (rolling_std 20 cl)) ! i = Fin u"
  shows "l \<le> u"
proof -
  from assms(1,2) have "fsub (rolling_mean 20 cl ! i) (fmul (Fin 2) (rolling_std 20 cl ! i)) = Fin l"
    by (simp add: nth_series)
  then obtain m sd where m: "rolling_mean 20 cl ! i = Fin m" and sd: "rolling_std 20 cl ! i = Fin sd"
    and l: "l = m - 2 * sd"
    using fsub_twice_Fin by blast
  from assms(1,3) have "fadd (rolling_mean 20 cl ! i) (fmul (Fin 2) (rolling_std 20 cl ! i)) = Fin u"
    by (simp add: nth_series)
  with m sd have u: "u = m + 2 * sd" by simp
  from rolling_std_Fin_nonneg [OF assms(1) sd] l u show ?thesis by simp
qed

lemma signal_cases:
  assumes "l \<le> u"
  shows "((if fgt c (Fin u) then Fin (- 1) else if flt c (Fin l) then Fin 1 else Fin 0) = Fin 1
            \<longleftrightarrow> flt c (Fin l))"
    and "((if fgt c (Fin u) then Fin (- 1) else if flt c (Fin l) then Fin 1 else Fin 0) = Fin (- 1)
            \<longleftrightarrow> fgt c (Fin u))"
    and "((if fgt c (Fin u) then Fin (- 1) else if flt c (Fin l) then Fin 1 else Fin 0) = Fin 0
            \<longleftrightarrow> \<not> flt c (Fin l) \<and> \<not> fgt c (Fin u))"
  using assms by (cases c; auto simp: fgt_def)+

lemma fsum_map_Fin: "fsum (map Fin rs) = Fin (sum_list rs)"
  by (induction rs) (simp_all add: fsum_def)

lemma fmean_map_Fin: "rs \<noteq> [] \<Longrightarrow> fmean (map Fin rs) = Fin (mean rs)"
  by (simp add: fmean_def fsum_map_Fin mean_def)

lemma sum_squares_nonneg: "0 \<le> (\<Sum>x\<leftarrow>rs. (x - m)\<^sup>2 :: real)"
  by (induction rs) simp_all

lemma fstd_map_Fin:
  assumes "2 \<le> length rs"
  shows "fstd (map Fin rs) = Fin (sample_std rs)"
proof -
  from assms have ne: "rs \<noteq> []" by auto
  have sq: "map (\<lambda>x. fmul (fsub x (Fin (mean rs))) (fsub x (Fin (mean rs)))) (map Fin rs)
            = map Fin (map (\<lambda>x. (x - mean rs)\<^sup>2) rs)"
    by (simp add: fsub_def power2_eq_square)
  have pos: "0 < real (length rs) - 1" using assms by simp
  have nn: "0 \<le> (\<Sum>x\<leftarrow>rs. (x - mean rs)\<^sup>2) / (real (length rs) - 1)"
    using sum_squares_nonneg [of "mean rs" rs] pos by simp
  show ?thesis
    using assms pos nn
    by (simp add: fstd_def fmean_map_Fin [OF ne] sq fsum_map_Fin sample_std_def
        del: map_map)
qed

lemma window_at_map_Fin:
  "window_at w (map Fin rs) i = map Fin (take w (drop (i + 1 - w) rs))"
  by (simp add: window_at_def take_map drop_map)

lemma length_window:
  "w \<le> i + 1 \<Longrightarrow> i < length rs \<Longrightarrow> length (take w (drop (i + 1 - w) rs)) = w"
  by simp

lemma rolling_mean_map_Fin:
  assumes "1 \<le> w" and "w \<le> i + 1" and "i < length rs"
  shows "rolling_mean w (map Fin rs) ! i = Fin (mean (take w (drop (i + 1 - w) rs)))"
proof -
  have "take w (drop (i + 1 - w) rs) \<noteq> []"
    using length_window [OF assms(2,3)] assms(1) by auto
  then show ?thesis
    using assms by (simp add: rolling_mean_def nth_rolling window_at_map_Fin fmean_map_Fin)
qed

lemma rolling_std_map_Fin:
  assumes "2 \<le> w" and "w \<le> i + 1" and "i < length rs"
  shows "rolling_std w (map Fin rs) ! i = Fin (sample_std (take w (drop (i + 1 - w) rs)))"
proof -
  have "2 \<le> length (take w (drop (i + 1 - w) rs))"
    using length_window [OF assms(2,3)] assms(1) by simp
  then show ?thesis
    using assms by (simp add: rolling_std_def nth_rolling window_at_map_Fin fstd_map_Fin)
qed

lemma flt_NaN [simp]: "flt x NaN = False" "fgt x NaN = False" "fgt NaN x = False"
  by (cases x; simp add: fgt_def)+

lemma fadd_NaN [simp]: "fadd x NaN = NaN" "fsub x NaN = NaN" "fsub NaN x = NaN"
  "fmul x NaN = NaN"
  by (cases x; simp add: fsub_def)+

lemma band_NaN:
  "x = NaN \<or> y = NaN \<Longrightarrow> fadd x (fmul (Fin 2) y) = NaN \<and> fsub x (fmul (Fin 2) y) = NaN"
  by (cases x; cases y; auto simp: fsub_def)

lemma length_index_bars: "length (index (store_of (bars cs) a)) = length cs"
  by (simp add: store_of_def bars_def)

lemma cell_after_Inr:
  "res = Inr (\<sigma>', r) \<Longrightarrow> getitem \<sigma>' a c = Inr xs \<Longrightarrow> cell_after res a c i = Inr (xs ! i)"
  by (simp add: cell_after_def column_after_def ebind_Inr)

lemma dip_window: "take 20 dip_closes = dip_closes"
  by (simp add: dip_closes_def)

lemma mean_dip: "mean dip_closes = 201 / 2"
  by (simp add: mean_def dip_closes_def)

lemma sample_std_dip: "sample_std dip_closes = 1"
  by (simp add: sample_std_def mean_dip) (simp add: dip_closes_def power2_eq_square)

lemma rally_short_window: "take 50 (drop (199 + 1 - 50) rally_closes) = replicate 50 100"
  by (simp add: rally_closes_def)

lemma rally_long_window: "take 200 (drop (199 + 1 - 200) rally_closes) = rally_closes"
  by (simp add: rally_closes_def)

lemma mean_replicate: "0 < n \<Longrightarrow> mean (replicate n c) = c"
  by (simp add: mean_def sum_list_replicate)

lemma mean_rally: "mean rally_closes = 125 / 2"
  by (simp add: mean_def rally_closes_def sum_list_replicate)

lemma rolling_short:
  "length xs < w \<Longrightarrow> rolling stat w xs = replicate (length xs) NaN"
  by (simp add: list_eq_iff_nth_eq nth_rolling length_rolling)

lemma binade_numeral [simp]:
  "binade (numeral k) x =
     (if 2 \<le> x then binade (pred_numeral k) (x / 2) + 1
      else if x < 1 then binade (pred_numeral k) (x * 2) - 1
      else 0)"
  by (simp add: numeral_eq_Suc)

lemma binade_bounds:
  "2 powi (- int n) \<le> x \<Longrightarrow> x < 2 ^ Suc n \<Longrightarrow>
   2 powi (binade n x) \<le> x \<and> x < 2 powi (binade n x + 1)"
proof (induction n arbitrary: x)
  case 0
  then show ?case by simp
next
  case (Suc n)
  show ?case
  proof (cases "2 \<le> x")
    case True
    have "(2::real) powi (- int n) \<le> 1"
      by (simp add: power_int_minus inverse_eq_divide)
    also have "1 \<le> x / 2" using True by simp
    finally have lo: "2 powi (- int n) \<le> x / 2" .
    have hi: "x / 2 < 2 ^ Suc n" using Suc.prems(2) by simp
    from Suc.IH [OF lo hi] True show ?thesis
      by (simp add: power_int_add field_simps)
  next
    case False
    show ?thesis
    proof (cases "x < 1")
      case True
      define t :: real where "t = 2 powi (- int n)"
      have "- int (Suc n) = - int n - 1" by simp
      then have "(2::real) powi (- int (Suc n)) = 2 powi (- int n - 1)" by (rule arg_cong)
      also have "\<dots> = t / 2" unfolding t_def by (subst power_int_diff) simp_all
      finally have "t / 2 \<le> x" using Suc.prems(1) by simp
      then have lo: "2 powi (- int n) \<le> x * 2" unfolding t_def by simp
      have "x * 2 < 2" using True by simp
      also have "(2::real) \<le> 2 ^ Suc n" by (simp add: self_le_power)
      finally have hi: "x * 2 < 2 ^ Suc n" .
      from Suc.IH [OF lo hi] True \<open>\<not> 2 \<le> x\<close> show ?thesis
        by (simp add: power_int_diff power_int_add field_simps)
    next
      case False
      with \<open>\<not> 2 \<le> x\<close> show ?thesis by simp
    qed
  qed
qed

lemma rounded_exact: "rounded (\<lambda>x. x) y = y"
  by (cases y) (simp_all add: rounded_def)

lemma rounded_Fin: "rounded rnd (Fin a) = Fin (rnd a)"
  by (simp add: rounded_def)

lemma growth_rnd_exact:
  "calculate_investment_growth_rnd (\<lambda>x. x) \<sigma> a p style = calculate_investment_growth \<sigma> a p style"
  by (simp add: calculate_investment_growth_rnd_def calculate_investment_growth_def rounded_exact)

lemma growth_rnd_result:
  assumes "getitem \<sigma> a ''Close'' = Inr cl" and "cl \<noteq> []"
  shows "\<exists>\<sigma>'. calculate_investment_growth_rnd rnd \<sigma> a p style =
     Inr (\<sigma>',
          rounded rnd (fmul (rounded rnd (fmul (rounded rnd (fdiv (last cl) (cl ! 0)))
             (Fin (rnd p)))) (Fin (multiplier_of style))),
          roi_percent_rnd rnd
            (rounded rnd (fmul (rounded rnd (fmul (rounded rnd (fdiv (last cl) (cl ! 0)))
               (Fin (rnd p)))) (Fin (multiplier_of style)))) p)"
  using assms
  by (simp add: calculate_investment_growth_rnd_def ebind_Inr iloc_first iloc_last Let_def
      roi_percent_rnd_def)

section \<open>Style ordering of the final growth\<close>

text \<open>
  Claim C1, as amended. For a series whose first and last close are finite and whose first
  close is not zero, the three styles return finite final values, and their order follows
  the sign of \<open>(end_close / start_close) * principal\<close>, not the direction of the price.
  When that product is non-negative (in particular for a positive first close, a
  non-negative last close and a non-negative principal, whether the price rose or fell),
  Aggressive \<open>\<ge>\<close> Moderate \<open>\<ge>\<close> Passive; when it is non-positive the order is reversed.
\<close>

theorem style_ordering:
  assumes "getitem \<sigma> a ''Close'' = Inr cl" and "cl \<noteq> []"
    and "cl ! 0 = Fin s" and "last cl = Fin e" and "s \<noteq> 0"
  shows "\<exists>gA gM gP.
           final_growth \<sigma> a p ''Aggressive'' = Inr (Fin gA) \<and>
           final_growth \<sigma> a p ''Moderate'' = Inr (Fin gM) \<and>
           final_growth \<sigma> a p ''Passive'' = Inr (Fin gP) \<and>
           (0 \<le> e / s * p \<longrightarrow> fge (Fin gA) (Fin gM) \<and> fge (Fin gM) (Fin gP)) \<and>
           (e / s * p \<le> 0 \<longrightarrow> fge (Fin gP) (Fin gM) \<and> fge (Fin gM) (Fin gA)) \<and>
           (0 < s \<and> 0 \<le> e \<and> 0 \<le> p \<longrightarrow> fge (Fin gA) (Fin gM) \<and> fge (Fin gM) (Fin gP))"
proof -
  define b where "b = e / s * p"
  have A: "final_growth \<sigma> a p ''Aggressive'' = Inr (Fin (b * (3 / 2)))"
    using assms(3-5)
    by (simp add: final_growth_result [OF assms(1,2)] growth_value_def multiplier_of_simps b_def)
  have M: "final_growth \<sigma> a p ''Moderate'' = Inr (Fin b)"
    using assms(3-5)
    by (simp add: final_growth_result [OF assms(1,2)] growth_value_def multiplier_of_simps b_def)
  have P: "final_growth \<sigma> a p ''Passive'' = Inr (Fin (b * (3 / 4)))"
    using assms(3-5)
    by (simp add: final_growth_result [OF assms(1,2)] growth_value_def multiplier_of_simps b_def)
  have up: "0 \<le> b \<longrightarrow> fge (Fin (b * (3 / 2))) (Fin b) \<and> fge (Fin b) (Fin (b * (3 / 4)))"
    by (simp add: fge_def)
  have down: "b \<le> 0 \<longrightarrow> fge (Fin (b * (3 / 4))) (Fin b) \<and> fge (Fin b) (Fin (b * (3 / 2)))"
    by (simp add: fge_def)
  have pos: "0 < s \<and> 0 \<le> e \<and> 0 \<le> p \<longrightarrow> 0 \<le> b"
    by (simp add: b_def)
  from A M P up down pos show ?thesis
    unfolding b_def by blast
qed

text \<open>
  C1 at closes 100, 50 and principal 10000: the price fell and the order is still
  Aggressive 7500 \<open>\<ge>\<close> Moderate 5000 \<open>\<ge>\<close> Passive 3750.
\<close>

theorem style_ordering_witness:
  "getitem (store_of (bars [100, 50])) 0 ''Close'' = Inr [Fin 100, Fin 50] \<and>
   [Fin 100, Fin 50] \<noteq> [] \<and> [Fin 100, Fin 50] ! 0 = Fin 100 \<and> last [Fin 100, Fin 50] = Fin 50 \<and>
   (100::real) \<noteq> 0 \<and> (0::real) \<le> 50 / 100 * 10000 \<and>
   final_growth (store_of (bars [100, 50])) 0 10000 ''Aggressive'' = Inr (Fin 7500) \<and>
   final_growth (store_of (bars [100, 50])) 0 10000 ''Moderate'' = Inr (Fin 5000) \<and>
   final_growth (store_of (bars [100, 50])) 0 10000 ''Passive'' = Inr (Fin 3750) \<and>
   fge (Fin 7500) (Fin 5000) \<and> fge (Fin 5000) (Fin 3750)"
proof -
  have c: "getitem (store_of (bars [100, 50])) 0 ''Close'' = Inr [Fin 100, Fin 50]"
    using getitem_bars [of "[100, 50]" 0] by simp
  have n: "[Fin 100, Fin 50] \<noteq> []" by simp
  have h: "[Fin 100, Fin 50] ! 0 = Fin 100" by simp
  have l: "last [Fin 100, Fin 50] = Fin 50" by simp
  have z: "(100::real) \<noteq> 0" by simp
  have b: "(0::real) \<le> 50 / 100 * 10000" by simp
  from style_ordering [OF c n h l z, of 10000]
  obtain gA gM gP where
    A: "final_growth (store_of (bars [100, 50])) 0 10000 ''Aggressive'' = Inr (Fin gA)" and
    M: "final_growth (store_of (bars [100, 50])) 0 10000 ''Moderate'' = Inr (Fin gM)" and
    P: "final_growth (store_of (bars [100, 50])) 0 10000 ''Passive'' = Inr (Fin gP)" and
    ord: "fge (Fin gA) (Fin gM) \<and> fge (Fin gM) (Fin gP)"
    using b by auto
  have A': "final_growth (store_of (bars [100, 50])) 0 10000 ''Aggressive'' = Inr (Fin 7500)"
    by (simp add: final_growth_result [OF c n] growth_value_def multiplier_of_simps)
  have M': "final_growth (store_of (bars [100, 50])) 0 10000 ''Moderate'' = Inr (Fin 5000)"
    by (simp add: final_growth_result [OF c n] growth_value_def multiplier_of_simps)
  have P': "final_growth (store_of (bars [100, 50])) 0 10000 ''Passive'' = Inr (Fin 3750)"
    by (simp add: final_growth_result [OF c n] growth_value_def multiplier_of_simps)
  from A A' M M' P P' ord have "fge (Fin 7500) (Fin 5000) \<and> fge (Fin 5000) (Fin 3750)"
    by simp
  with c n h l z b A' M' P' show ?thesis by simp
qed

text \<open>
  Claim C1 as stated asks for Passive \<open>\<ge>\<close> Moderate \<open>\<ge>\<close> Aggressive whenever
  \<open>end_close < start_close\<close>. At closes 100, 50 and principal 10000 the last close is
  below the first and the final values are 7500, 5000 and 3750: Passive is not above
  Moderate, nor Moderate above Aggressive.
\<close>

theorem style_ordering_reverse_counterexample:
  "iloc [Fin 100, Fin 50] 0 = Inr (Fin 100) \<and> iloc [Fin 100, Fin 50] (- 1) = Inr (Fin 50) \<and>
   flt (Fin 50) (Fin 100) \<and>
   getitem (store_of (bars [100, 50])) 0 ''Close'' = Inr [Fin 100, Fin 50] \<and>
   final_growth (store_of (bars [100, 50])) 0 10000 ''Aggressive'' = Inr (Fin 7500) \<and>
   final_growth (store_of (bars [100, 50])) 0 10000 ''Moderate'' = Inr (Fin 5000) \<and>
   final_growth (store_of (bars [100, 50])) 0 10000 ''Passive'' = Inr (Fin 3750) \<and>
   \<not> fge (Fin 3750) (Fin 5000) \<and> \<not> fge (Fin 5000) (Fin 7500)"
proof -
  have c: "getitem (store_of (bars [100, 50])) 0 ''Close'' = Inr [Fin 100, Fin 50]"
    using getitem_bars [of "[100, 50]" 0] by simp
  have n: "[Fin 100, Fin 50] \<noteq> []" by simp
  show ?thesis
    by (simp add: c final_growth_result [OF c n] growth_value_def multiplier_of_simps
        iloc_def fge_def)
qed

section \<open>Degenerate series in the growth simulation\<close>

text \<open>
  Claim C2, as amended. \<open>calculate_investment_growth\<close> validates nothing. On an empty
  series it fails with the IndexError of \<open>iloc[0]\<close>; on every non-empty series, also one
  of a single bar or with a first close that is zero or negative, it returns
  \<open>growth = (end_close / start_close) * amount * multiplier\<close> without an error: a single
  bar with a non-zero close gives \<open>amount * multiplier\<close>, a negative first close gives the
  finite value of the formula, and a first close of zero gives an infinity or NaN.
\<close>

theorem growth_no_validation:
  assumes "getitem \<sigma> a ''Close'' = Inr cl"
  shows "(cl = [] \<longrightarrow> calculate_investment_growth \<sigma> a p style = Inl IndexError) \<and>
         (cl \<noteq> [] \<longrightarrow>
            (\<exists>\<sigma>' g r. calculate_investment_growth \<sigma> a p style = Inr (\<sigma>', g, r) \<and>
               g = fmul (fmul (fdiv (last cl) (cl ! 0)) (Fin p)) (Fin (multiplier_of style)) \<and>
               (\<forall>c. cl = [Fin c] \<and> c \<noteq> 0 \<longrightarrow> g = Fin (p * multiplier_of style)) \<and>
               (\<forall>s e. cl ! 0 = Fin s \<and> last cl = Fin e \<and> s < 0 \<longrightarrow>
                   g = Fin (e / s * p * multiplier_of style)) \<and>
               (cl ! 0 = Fin 0 \<longrightarrow> g \<in> {PInf, NInf, NaN})))"
proof (intro conjI impI)
  assume "cl = []"
  with assms show "calculate_investment_growth \<sigma> a p style = Inl IndexError"
    by (simp add: growth_empty)
next
  assume ne: "cl \<noteq> []"
  let ?g = "fmul (fmul (fdiv (last cl) (cl ! 0)) (Fin p)) (Fin (multiplier_of style))"
  have one: "\<forall>c. cl = [Fin c] \<and> c \<noteq> 0 \<longrightarrow> ?g = Fin (p * multiplier_of style)"
    by auto
  have neg: "\<forall>s e. cl ! 0 = Fin s \<and> last cl = Fin e \<and> s < 0 \<longrightarrow>
      ?g = Fin (e / s * p * multiplier_of style)"
    by auto
  have zero: "cl ! 0 = Fin 0 \<longrightarrow> ?g \<in> {PInf, NInf, NaN}"
  proof
    assume "cl ! 0 = Fin 0"
    then have "fdiv (last cl) (cl ! 0) \<in> {PInf, NInf, NaN}"
      using div_zero_nonfinite [of "last cl"] by simp
    then have "fmul (fdiv (last cl) (cl ! 0)) (Fin p) \<in> {PInf, NInf, NaN}"
      by (rule nonfinite_mul)
    then show "?g \<in> {PInf, NInf, NaN}"
      by (rule nonfinite_mul)
  qed
  show "\<exists>\<sigma>' g r. calculate_investment_growth \<sigma> a p style = Inr (\<sigma>', g, r) \<and>
               g = ?g \<and>
               (\<forall>c. cl = [Fin c] \<and> c \<noteq> 0 \<longrightarrow> g = Fin (p * multiplier_of style)) \<and>
               (\<forall>s e. cl ! 0 = Fin s \<and> last cl = Fin e \<and> s < 0 \<longrightarrow>
                   g = Fin (e / s * p * multiplier_of style)) \<and>
               (cl ! 0 = Fin 0 \<longrightarrow> g \<in> {PInf, NInf, NaN})"
    using growth_result [OF assms ne, of p style] one neg zero
    unfolding growth_value_def by blast
qed

text \<open>
  C2 on the empty series (IndexError) and on closes 0, 50 (growth is \<open>+\<infinity>\<close>, no error).
\<close>

theorem growth_no_validation_witness:
  "getitem (store_of (bars [])) 0 ''Close'' = Inr [] \<and>
   calculate_investment_growth (store_of (bars [])) 0 10000 ''Moderate'' = Inl IndexError \<and>
   getitem (store_of (bars [0, 50])) 0 ''Close'' = Inr [Fin 0, Fin 50] \<and>
   [Fin 0, Fin 50] \<noteq> [] \<and> [Fin 0, Fin 50] ! 0 = Fin 0 \<and>
   map_sum id (fst \<circ> snd) (calculate_investment_growth (store_of (bars [0, 50])) 0 10000 ''Moderate'')
     = Inr PInf"
proof -
  have c0: "getitem (store_of (bars [])) 0 ''Close'' = Inr []"
    using getitem_bars [of "[]" 0] by simp
  have c1: "getitem (store_of (bars [0, 50])) 0 ''Close'' = Inr [Fin 0, Fin 50]"
    using getitem_bars [of "[0, 50]" 0] by simp
  from growth_no_validation [OF c0, of 10000 "''Moderate''"]
  have e: "calculate_investment_growth (store_of (bars [])) 0 10000 ''Moderate'' = Inl IndexError"
    by simp
  from growth_no_validation [OF c1, of 10000 "''Moderate''"]
  have r: "map_sum id (fst \<circ> snd)
             (calculate_investment_growth (store_of (bars [0, 50])) 0 10000 ''Moderate'') = Inr PInf"
    by (auto simp: multiplier_of_simps)
  from c0 e c1 r show ?thesis by simp
qed

text \<open>
  Claim C2 as stated asks for an error on fewer than 2 bars and on a first close
  \<open>\<le> 0\<close>. The single bar 100 returns (10000, 0); closes -100, 50 return (-5000, -150);
  closes 0, 50 return \<open>(+\<infinity>, +\<infinity>)\<close>. None of the three calls raises.
\<close>

theorem growth_no_error_counterexample:
  "getitem (store_of (bars [100])) 0 ''Close'' = Inr [Fin 100] \<and> length [Fin 100 :: fl] < 2 \<and>
   map_sum id snd (calculate_investment_growth (store_of (bars [100])) 0 10000 ''Moderate'')
     = Inr (Fin 10000, Fin 0) \<and>
   getitem (store_of (bars [- 100, 50])) 0 ''Close'' = Inr [Fin (- 100), Fin 50] \<and>
   map_sum id snd (calculate_investment_growth (store_of (bars [- 100, 50])) 0 10000 ''Moderate'')
     = Inr (Fin (- 5000), Fin (- 150)) \<and>
   getitem (store_of (bars [0, 50])) 0 ''Close'' = Inr [Fin 0, Fin 50] \<and>
   map_sum id snd (calculate_investment_growth (store_of (bars [0, 50])) 0 10000 ''Moderate'')
     = Inr (PInf, PInf)"
proof -
  have c1: "getitem (store_of (bars [100])) 0 ''Close'' = Inr [Fin 100]"
    using getitem_bars [of "[100]" 0] by simp
  have c2: "getitem (store_of (bars [- 100, 50])) 0 ''Close'' = Inr [Fin (- 100), Fin 50]"
    using getitem_bars [of "[- 100, 50]" 0] by simp
  have c3: "getitem (store_of (bars [0, 50])) 0 ''Close'' = Inr [Fin 0, Fin 50]"
    using getitem_bars [of "[0, 50]" 0] by simp
  have r1: "map_sum id snd (calculate_investment_growth (store_of (bars [100])) 0 10000 ''Moderate'')
     = Inr (Fin 10000, Fin 0)"
    by (simp add: growth_result [OF c1] growth_value_def multiplier_of_simps fsub_def)
  have r2: "map_sum id snd
      (calculate_investment_growth (store_of (bars [- 100, 50])) 0 10000 ''Moderate'')
     = Inr (Fin (- 5000), Fin (- 150))"
    by (simp add: growth_result [OF c2] growth_value_def multiplier_of_simps fsub_def)
  have r3: "map_sum id snd (calculate_investment_growth (store_of (bars [0, 50])) 0 10000 ''Moderate'')
     = Inr (PInf, PInf)"
    by (simp add: growth_result [OF c3] growth_value_def multiplier_of_simps fsub_def)
  from c1 c2 c3 r1 r2 r3 show ?thesis by simp
qed

section \<open>What the indicator computations change\<close>

text \<open>
  Claim C3, as amended. \<open>calculate_bollinger_bands\<close> and \<open>calculate_sma\<close> leave
  the index of the table, every column other than the ones they assign (so Open, High, Low
  and Close) and every other table of the store unchanged; their output is written as the
  columns SMA, STD, Upper Band, Lower Band (SMA_Short, SMA_Long) of the input table itself,
  and the reference they return is the one they received.
\<close>

theorem indicators_frame:
  assumes "getitem \<sigma> a ''Close'' = Inr cl"
  shows "(\<exists>\<sigma>'. calculate_bollinger_bands \<sigma> a w k = Inr (\<sigma>', a) \<and>
            index (\<sigma>' a) = index (\<sigma> a) \<and>
            (\<forall>c. c \<noteq> ''SMA'' \<and> c \<noteq> ''STD'' \<and> c \<noteq> ''Upper Band'' \<and> c \<noteq> ''Lower Band'' \<longrightarrow>
                 cols (\<sigma>' a) c = cols (\<sigma> a) c) \<and>
            (\<forall>b. b \<noteq> a \<longrightarrow> \<sigma>' b = \<sigma> b) \<and>
            cols (\<sigma>' a) ''SMA'' = Some (rolling_mean w cl) \<and>
            cols (\<sigma>' a) ''STD'' = Some (rolling_std w cl) \<and>
            cols (\<sigma>' a) ''Upper Band'' =
              Some (series_add (rolling_mean w cl) (scalar_mul k (rolling_std w cl))) \<and>
            cols (\<sigma>' a) ''Lower Band'' =
              Some (series_sub (rolling_mean w cl) (scalar_mul k (rolling_std w cl)))) \<and>
         (\<exists>\<sigma>'. calculate_sma \<sigma> a sw lw = Inr (\<sigma>', a) \<and>
            index (\<sigma>' a) = index (\<sigma> a) \<and>
            (\<forall>c. c \<noteq> ''SMA_Short'' \<and> c \<noteq> ''SMA_Long'' \<longrightarrow> cols (\<sigma>' a) c = cols (\<sigma> a) c) \<and>
            (\<forall>b. b \<noteq> a \<longrightarrow> \<sigma>' b = \<sigma> b) \<and>
            cols (\<sigma>' a) ''SMA_Short'' = Some (rolling_mean sw cl) \<and>
            cols (\<sigma>' a) ''SMA_Long'' = Some (rolling_mean lw cl))"
proof
  show "\<exists>\<sigma>'. calculate_bollinger_bands \<sigma> a w k = Inr (\<sigma>', a) \<and>
            index (\<sigma>' a) = index (\<sigma> a) \<and>
            (\<forall>c. c \<noteq> ''SMA'' \<and> c \<noteq> ''STD'' \<and> c \<noteq> ''Upper Band'' \<and> c \<noteq> ''Lower Band'' \<longrightarrow>
                 cols (\<sigma>' a) c = cols (\<sigma> a) c) \<and>
            (\<forall>b. b \<noteq> a \<longrightarrow> \<sigma>' b = \<sigma> b) \<and>
            cols (\<sigma>' a) ''SMA'' = Some (rolling_mean w cl) \<and>
            cols (\<sigma>' a) ''STD'' = Some (rolling_std w cl) \<and>
            cols (\<sigma>' a) ''Upper Band'' =
              Some (series_add (rolling_mean w cl) (scalar_mul k (rolling_std w cl))) \<and>
            cols (\<sigma>' a) ''Lower Band'' =
              Some (series_sub (rolling_mean w cl) (scalar_mul k (rolling_std w cl)))"
    by (simp add: calculate_bollinger_bands_result [OF assms] index_setitem cols_setitem
        setitem_other)
next
  show "\<exists>\<sigma>'. calculate_sma \<sigma> a sw lw = Inr (\<sigma>', a) \<and>
            index (\<sigma>' a) = index (\<sigma> a) \<and>
            (\<forall>c. c \<noteq> ''SMA_Short'' \<and> c \<noteq> ''SMA_Long'' \<longrightarrow> cols (\<sigma>' a) c = cols (\<sigma> a) c) \<and>
            (\<forall>b. b \<noteq> a \<longrightarrow> \<sigma>' b = \<sigma> b) \<and>
            cols (\<sigma>' a) ''SMA_Short'' = Some (rolling_mean sw cl) \<and>
            cols (\<sigma>' a) ''SMA_Long'' = Some (rolling_mean lw cl)"
    by (simp add: calculate_sma_result [OF assms] index_setitem cols_setitem setitem_other)
qed

text \<open>
  C3 on a store of two tables: after the calls on table 0 its Close and Open columns and
  table 1 are as before, and table 0 carries the new columns.
\<close>

theorem indicators_frame_witness:
  "getitem two_tables 0 ''Close'' = Inr [Fin 100, Fin 110, Fin 121] \<and>
   (1::nat) \<noteq> 0 \<and>
   map_sum id snd (calculate_bollinger_bands two_tables 0 20 (Fin 2)) = Inr 0 \<and>
   column_after (calculate_bollinger_bands two_tables 0 20 (Fin 2)) 0 ''Close''
     = Inr [Fin 100, Fin 110, Fin 121] \<and>
   column_after (calculate_bollinger_bands two_tables 0 20 (Fin 2)) 0 ''SMA''
     = Inr [NaN, NaN, NaN] \<and>
   column_after (calculate_bollinger_bands two_tables 0 20 (Fin 2)) 1 ''Close''
     = Inr [Fin 7, Fin 8] \<and>
   column_after (calculate_sma two_tables 0 50 200) 0 ''Open'' = Inr [Fin 100, Fin 110, Fin 121] \<and>
   column_after (calculate_sma two_tables 0 50 200) 0 ''SMA_Long'' = Inr [NaN, NaN, NaN]"
proof -
  have c: "getitem two_tables 0 ''Close'' = Inr [Fin 100, Fin 110, Fin 121]"
    by (simp add: two_tables_def getitem_def bars_def)
  note fr = indicators_frame [OF c, of 20 "Fin 2" 50 200]
  from fr [THEN conjunct1] obtain \<sigma>' where
    run: "calculate_bollinger_bands two_tables 0 20 (Fin 2) = Inr (\<sigma>', 0)" and
    keep: "\<forall>c. c \<noteq> ''SMA'' \<and> c \<noteq> ''STD'' \<and> c \<noteq> ''Upper Band'' \<and> c \<noteq> ''Lower Band'' \<longrightarrow>
                 cols (\<sigma>' 0) c = cols (two_tables 0) c" and
    other: "\<forall>b. b \<noteq> 0 \<longrightarrow> \<sigma>' b = two_tables b" and
    sma: "cols (\<sigma>' 0) ''SMA'' = Some (rolling_mean 20 [Fin 100, Fin 110, Fin 121])"
    by (elim exE conjE)
  from fr [THEN conjunct2] obtain \<sigma>'' where
    run2: "calculate_sma two_tables 0 50 200 = Inr (\<sigma>'', 0)" and
    keep2: "\<forall>c. c \<noteq> ''SMA_Short'' \<and> c \<noteq> ''SMA_Long'' \<longrightarrow>
                 cols (\<sigma>'' 0) c = cols (two_tables 0) c" and
    lng: "cols (\<sigma>'' 0) ''SMA_Long'' = Some (rolling_mean 200 [Fin 100, Fin 110, Fin 121])"
    by (elim exE conjE)
  from keep [rule_format, of "''Close''"]
  have a1: "cols (\<sigma>' 0) ''Close'' = cols (two_tables 0) ''Close''" by simp
  from other [rule_format, of 1] have a2: "\<sigma>' (Suc 0) = two_tables (Suc 0)" by simp
  from keep2 [rule_format, of "''Open''"]
  have a3: "cols (\<sigma>'' 0) ''Open'' = cols (two_tables 0) ''Open''" by simp
  have t0: "cols (two_tables 0) ''Close'' = Some [Fin 100, Fin 110, Fin 121]"
    "cols (two_tables 0) ''Open'' = Some [Fin 100, Fin 110, Fin 121]"
    "cols (two_tables (Suc 0)) ''Close'' = Some [Fin 7, Fin 8]"
    by (simp_all add: two_tables_def bars_def)
  have nan: "rolling_mean 20 [Fin 100, Fin 110, Fin 121] = [NaN, NaN, NaN]"
    "rolling_mean 200 [Fin 100, Fin 110, Fin 121] = [NaN, NaN, NaN]"
    by (simp_all add: rolling_mean_def rolling_short)
  have r1: "map_sum id snd (calculate_bollinger_bands two_tables 0 20 (Fin 2)) = Inr 0"
    by (simp add: run)
  have r2: "column_after (calculate_bollinger_bands two_tables 0 20 (Fin 2)) 0 ''Close''
     = Inr [Fin 100, Fin 110, Fin 121]"
    by (simp add: run column_after_def ebind_Inr getitem_def a1 t0)
  have r3: "column_after (calculate_bollinger_bands two_tables 0 20 (Fin 2)) 0 ''SMA''
     = Inr [NaN, NaN, NaN]"
    by (simp add: run column_after_def ebind_Inr getitem_def sma nan)
  have r4: "column_after (calculate_bollinger_bands two_tables 0 20 (Fin 2)) 1 ''Close''
     = Inr [Fin 7, Fin 8]"
    by (simp add: run column_after_def ebind_Inr getitem_def a2 t0)
  have r5: "column_after (calculate_sma two_tables 0 50 200) 0 ''Open''
     = Inr [Fin 100, Fin 110, Fin 121]"
    by (simp add: run2 column_after_def ebind_Inr getitem_def a3 t0)
  have r6: "column_after (calculate_sma two_tables 0 50 200) 0 ''SMA_Long'' = Inr [NaN, NaN, NaN]"
    by (simp add: run2 column_after_def ebind_Inr getitem_def lng nan)
  from c r1 r2 r3 r4 r5 r6 show ?thesis by simp
qed

text \<open>
  Claim C3 as stated says the output is a new structure and not fields written into the
  input table. Table 0 has no SMA, Upper Band or SMA_Short column before the calls; after
  them the same table, whose reference is returned, has all three.
\<close>

theorem indicators_write_input_counterexample:
  "getitem two_tables 0 ''SMA'' = Inl (KeyError ''SMA'') \<and>
   getitem two_tables 0 ''Upper Band'' = Inl (KeyError ''Upper Band'') \<and>
   map_sum id snd (calculate_bollinger_bands two_tables 0 20 (Fin 2)) = Inr 0 \<and>
   column_after (calculate_bollinger_bands two_tables 0 20 (Fin 2)) 0 ''SMA'' = Inr [NaN, NaN, NaN] \<and>
   column_after (calculate_bollinger_bands two_tables 0 20 (Fin 2)) 0 ''Upper Band''
     = Inr [NaN, NaN, NaN] \<and>
   getitem two_tables 0 ''SMA_Short'' = Inl (KeyError ''SMA_Short'') \<and>
   map_sum id snd (calculate_sma two_tables 0 50 200) = Inr 0 \<and>
   column_after (calculate_sma two_tables 0 50 200) 0 ''SMA_Short'' = Inr [NaN, NaN, NaN]"
proof -
  have c: "getitem two_tables 0 ''Close'' = Inr [Fin 100, Fin 110, Fin 121]"
    by (simp add: two_tables_def getitem_def bars_def)
  have m: "rolling_mean 20 [Fin 100, Fin 110, Fin 121] = [NaN, NaN, NaN]"
    "rolling_std 20 [Fin 100, Fin 110, Fin 121] = [NaN, NaN, NaN]"
    "rolling_mean 50 [Fin 100, Fin 110, Fin 121] = [NaN, NaN, NaN]"
    by (simp_all add: rolling_mean_def rolling_std_def rolling_short)
  have k: "getitem two_tables 0 ''SMA'' = Inl (KeyError ''SMA'')"
    "getitem two_tables 0 ''Upper Band'' = Inl (KeyError ''Upper Band'')"
    "getitem two_tables 0 ''SMA_Short'' = Inl (KeyError ''SMA_Short'')"
    by (simp_all add: two_tables_def getitem_def bars_def)
  show ?thesis
    by (simp add: k calculate_bollinger_bands_result [OF c] calculate_sma_result [OF c]
        column_after_def ebind_Inr getitem_setitem m series_add_def scalar_mul_def)
qed

section \<open>The growth trajectory\<close>

text \<open>
  Claim C4. For a series whose first close \<open>s\<close> is positive and for every style, the
  column \<open>f'{style} Growth'\<close> holds at each bar \<open>i\<close> the value
  \<open>(close[i] / s) * principal * multiplier\<close>, with \<open>s\<close> the close of the first bar of
  the whole column (the function takes no display window); its first entry is
  \<open>principal * multiplier\<close>, and the returned growth is its entry at the last bar.
\<close>

theorem growth_trajectory:
  assumes "getitem \<sigma> a ''Close'' = Inr cl" and "cl \<noteq> []" and "cl ! 0 = Fin s" and "0 < s"
  shows "\<exists>\<sigma>' g r traj. calculate_investment_growth \<sigma> a p style = Inr (\<sigma>', g, r) \<and>
           getitem \<sigma>' a (style @ '' Growth'') = Inr traj \<and>
           length traj = length cl \<and>
           (\<forall>i<length cl. traj ! i =
              fmul (fmul (fdiv (cl ! i) (Fin s)) (Fin p)) (Fin (multiplier_of style))) \<and>
           traj ! 0 = Fin (p * multiplier_of style) \<and>
           g = traj ! (length cl - 1) \<and> g = last traj"
proof -
  let ?traj = "map (\<lambda>c. growth_value c (cl ! 0) p style) cl"
  have 1: "getitem (setitem \<sigma> a (style @ '' Growth'') ?traj) a (style @ '' Growth'') = Inr ?traj"
    by (simp add: getitem_setitem)
  have 2: "\<forall>i<length cl. ?traj ! i =
      fmul (fmul (fdiv (cl ! i) (Fin s)) (Fin p)) (Fin (multiplier_of style))"
    using assms(3) by (simp add: growth_value_def)
  have 3: "?traj ! 0 = Fin (p * multiplier_of style)"
    using assms(2-4) by (simp add: growth_value_def)
  have 4: "growth_value (last cl) (cl ! 0) p style = ?traj ! (length cl - 1)"
    using assms(2) by (simp add: last_conv_nth)
  have 5: "growth_value (last cl) (cl ! 0) p style = last ?traj"
    using assms(2) by (simp add: last_map)
  show ?thesis
    using 1 2 3 4 5 by (simp add: growth_result [OF assms(1,2)])
qed

text \<open>
  C4 at closes 100, 110, 121, principal 10000, style Aggressive: the trajectory is
  15000, 16500, 18150 and the final growth 18150.
\<close>

theorem growth_trajectory_witness:
  "getitem (store_of (bars [100, 110, 121])) 0 ''Close'' = Inr [Fin 100, Fin 110, Fin 121] \<and>
   [Fin 100, Fin 110, Fin 121] \<noteq> [] \<and> [Fin 100, Fin 110, Fin 121] ! 0 = Fin 100 \<and>
   (0::real) < 100 \<and>
   (\<exists>\<sigma>' traj. map_sum id fst (calculate_investment_growth (store_of (bars [100, 110, 121])) 0 10000
        ''Aggressive'') = Inr \<sigma>' \<and>
      getitem \<sigma>' 0 ''Aggressive Growth'' = Inr traj \<and>
      traj ! 0 = Fin 15000 \<and> traj ! 1 = Fin 16500 \<and> traj ! 2 = Fin 18150 \<and>
      map_sum id (fst \<circ> snd) (calculate_investment_growth (store_of (bars [100, 110, 121])) 0 10000
        ''Aggressive'') = Inr (Fin 18150))"
proof -
  have c: "getitem (store_of (bars [100, 110, 121])) 0 ''Close'' = Inr [Fin 100, Fin 110, Fin 121]"
    using getitem_bars [of "[100, 110, 121]" 0] by simp
  have n: "[Fin 100, Fin 110, Fin 121] \<noteq> []" by simp
  have h: "[Fin 100, Fin 110, Fin 121] ! 0 = Fin 100" by simp
  have p: "(0::real) < 100" by simp
  from growth_trajectory [OF c n h p, of 10000 "''Aggressive''"]
  obtain \<sigma>' g r traj where
    run: "calculate_investment_growth (store_of (bars [100, 110, 121])) 0 10000 ''Aggressive''
            = Inr (\<sigma>', g, r)"
    and col: "getitem \<sigma>' 0 ''Aggressive Growth'' = Inr traj"
    and each: "\<forall>i<3. traj ! i = fmul (fmul (fdiv ([Fin 100, Fin 110, Fin 121] ! i) (Fin 100))
                 (Fin 10000)) (Fin (multiplier_of ''Aggressive''))"
    and fin: "g = traj ! 2"
    by auto
  from each have t0: "traj ! 0 = Fin 15000" and t1: "traj ! 1 = Fin 16500"
    and t2: "traj ! 2 = Fin 18150"
    by (simp_all add: multiplier_of_simps)
  from run col t0 t1 t2 fin c n h p show ?thesis by simp
qed

section \<open>Bollinger Bands signals\<close>

text \<open>
  Claim C5. Under the Bollinger Bands strategy, at every bar where both bands are defined
  (finite), the signal is 1 (Buy) exactly when \<open>close < lower\<close>, -1 (Sell) exactly when
  \<open>close > upper\<close> and 0 (Hold) otherwise, the bands being those of the same bar; a
  close equal to either band is Hold.
\<close>

theorem bollinger_signal:
  assumes "getitem \<sigma> a ''Close'' = Inr cl" and "length cl = length (index (\<sigma> a))"
    and "i < length cl"
  shows "\<exists>\<sigma>' lower upper sig.
           apply_strategy \<sigma> a ''Bollinger Bands'' = Inr (\<sigma>', a) \<and>
           getitem \<sigma>' a ''Close'' = Inr cl \<and>
           getitem \<sigma>' a ''Lower Band'' = Inr lower \<and>
           lower = series_sub (rolling_mean 20 cl) (scalar_mul (Fin 2) (rolling_std 20 cl)) \<and>
           getitem \<sigma>' a ''Upper Band'' = Inr upper \<and>
           upper = series_add (rolling_mean 20 cl) (scalar_mul (Fin 2) (rolling_std 20 cl)) \<and>
           getitem \<sigma>' a ''Signal'' = Inr sig \<and>
           (\<forall>l u. lower ! i = Fin l \<and> upper ! i = Fin u \<longrightarrow>
              (sig ! i = Fin 1 \<longleftrightarrow> flt (cl ! i) (Fin l)) \<and>
              (sig ! i = Fin (- 1) \<longleftrightarrow> fgt (cl ! i) (Fin u)) \<and>
              (sig ! i = Fin 0 \<longleftrightarrow> \<not> flt (cl ! i) (Fin l) \<and> \<not> fgt (cl ! i) (Fin u)) \<and>
              (cl ! i = Fin l \<or> cl ! i = Fin u \<longrightarrow> sig ! i = Fin 0))"
proof -
  let ?lo = "series_sub (rolling_mean 20 cl) (scalar_mul (Fin 2) (rolling_std 20 cl))"
  let ?up = "series_add (rolling_mean 20 cl) (scalar_mul (Fin 2) (rolling_std 20 cl))"
  let ?sig = "signal_column (series_lt cl ?lo) (series_gt cl ?up) (length (index (\<sigma> a)))"
  let ?\<sigma>' = "setitem (setitem (setitem (setitem (setitem \<sigma> a ''SMA'' (rolling_mean 20 cl))
            a ''STD'' (rolling_std 20 cl)) a ''Upper Band'' ?up) a ''Lower Band'' ?lo)
            a ''Signal'' ?sig"
  have run: "apply_strategy \<sigma> a ''Bollinger Bands'' = Inr (?\<sigma>', a)"
    by (rule apply_strategy_bollinger_result [OF assms(1)])
  have c: "getitem ?\<sigma>' a ''Close'' = Inr cl"
    using assms(1) by (simp add: getitem_setitem)
  have lo: "getitem ?\<sigma>' a ''Lower Band'' = Inr ?lo"
    by (simp add: getitem_setitem)
  have up: "getitem ?\<sigma>' a ''Upper Band'' = Inr ?up"
    by (simp add: getitem_setitem)
  have sg: "getitem ?\<sigma>' a ''Signal'' = Inr ?sig"
    by (simp add: getitem_setitem)
  have nth: "?sig ! i = (if fgt (cl ! i) (?up ! i) then Fin (- 1)
                         else if flt (cl ! i) (?lo ! i) then Fin 1 else Fin 0)"
    using assms(2,3) by (simp add: nth_signal_column nth_series)
  have key: "\<forall>l u. ?lo ! i = Fin l \<and> ?up ! i = Fin u \<longrightarrow>
              (?sig ! i = Fin 1 \<longleftrightarrow> flt (cl ! i) (Fin l)) \<and>
              (?sig ! i = Fin (- 1) \<longleftrightarrow> fgt (cl ! i) (Fin u)) \<and>
              (?sig ! i = Fin 0 \<longleftrightarrow> \<not> flt (cl ! i) (Fin l) \<and> \<not> fgt (cl ! i) (Fin u)) \<and>
              (cl ! i = Fin l \<or> cl ! i = Fin u \<longrightarrow> ?sig ! i = Fin 0)"
  proof (intro allI impI, elim conjE)
    fix l u
    assume l: "?lo ! i = Fin l" and u: "?up ! i = Fin u"
    have le: "l \<le> u" by (rule bands_ordered [OF assms(3) l u])
    have n: "?sig ! i = (if fgt (cl ! i) (Fin u) then Fin (- 1)
                         else if flt (cl ! i) (Fin l) then Fin 1 else Fin 0)"
      using nth l u by simp
    have tie: "cl ! i = Fin l \<or> cl ! i = Fin u \<longrightarrow> ?sig ! i = Fin 0"
      unfolding n using le by (auto simp: fgt_def)
    show "(?sig ! i = Fin 1 \<longleftrightarrow> flt (cl ! i) (Fin l)) \<and>
              (?sig ! i = Fin (- 1) \<longleftrightarrow> fgt (cl ! i) (Fin u)) \<and>
              (?sig ! i = Fin 0 \<longleftrightarrow> \<not> flt (cl ! i) (Fin l) \<and> \<not> fgt (cl ! i) (Fin u)) \<and>
              (cl ! i = Fin l \<or> cl ! i = Fin u \<longrightarrow> ?sig ! i = Fin 0)"
      unfolding n using signal_cases [OF le, of "cl ! i"] tie [unfolded n] by blast
  qed
  from run c lo up sg key show ?thesis by blast
qed

text \<open>
  C5 on twenty bars with mean 100.5 and sample deviation 1: at the last bar the bands are
  98.5 and 102.5, the close 98 is below the lower band and the signal is Buy.
\<close>

theorem bollinger_signal_witness:
  "getitem (store_of (bars dip_closes)) 0 ''Close'' = Inr (map Fin dip_closes) \<and>
   length (map Fin dip_closes) = length (index (store_of (bars dip_closes) 0)) \<and>
   19 < length (map Fin dip_closes) \<and>
   cell_after (apply_strategy (store_of (bars dip_closes)) 0 ''Bollinger Bands'') 0 ''Lower Band'' 19
     = Inr (Fin (197 / 2)) \<and>
   cell_after (apply_strategy (store_of (bars dip_closes)) 0 ''Bollinger Bands'') 0 ''Upper Band'' 19
     = Inr (Fin (205 / 2)) \<and>
   map Fin dip_closes ! 19 = Fin 98 \<and> flt (Fin 98) (Fin (197 / 2)) \<and>
   cell_after (apply_strategy (store_of (bars dip_closes)) 0 ''Bollinger Bands'') 0 ''Signal'' 19
     = Inr (Fin 1)"
proof -
  let ?ex = "store_of (bars dip_closes)"
  let ?cl = "map Fin dip_closes"
  have c: "getitem ?ex 0 ''Close'' = Inr ?cl" by (rule getitem_bars)
  have n: "length ?cl = length (index (?ex 0))" by (simp add: length_index_bars)
  have i: "19 < length ?cl" by (simp add: dip_closes_def)
  have i': "19 < length dip_closes" by (simp add: dip_closes_def)
  have m: "rolling_mean 20 ?cl ! 19 = Fin (201 / 2)"
    using rolling_mean_map_Fin [of 20 19 dip_closes] i' by (simp add: dip_window mean_dip)
  have sd: "rolling_std 20 ?cl ! 19 = Fin 1"
    using rolling_std_map_Fin [of 20 19 dip_closes] i' by (simp add: dip_window sample_std_dip)
  have x: "?cl ! 19 = Fin 98" by (simp add: dip_closes_def)
  from bollinger_signal [OF c n i]
  obtain \<sigma>' lower upper sig where
    run: "apply_strategy ?ex 0 ''Bollinger Bands'' = Inr (\<sigma>', 0)" and
    lo: "getitem \<sigma>' 0 ''Lower Band'' = Inr lower" and
    lo_def: "lower = series_sub (rolling_mean 20 ?cl) (scalar_mul (Fin 2) (rolling_std 20 ?cl))" and
    up: "getitem \<sigma>' 0 ''Upper Band'' = Inr upper" and
    up_def: "upper = series_add (rolling_mean 20 ?cl) (scalar_mul (Fin 2) (rolling_std 20 ?cl))" and
    sg: "getitem \<sigma>' 0 ''Signal'' = Inr sig" and
    rule: "\<forall>l u. lower ! 19 = Fin l \<and> upper ! 19 = Fin u \<longrightarrow>
              (sig ! 19 = Fin 1 \<longleftrightarrow> flt (?cl ! 19) (Fin l))"
    by blast
  have l19: "lower ! 19 = Fin (197 / 2)"
    unfolding lo_def using i by (simp add: nth_series m sd fsub_def)
  have u19: "upper ! 19 = Fin (205 / 2)"
    unfolding up_def using i by (simp add: nth_series m sd)
  have lt: "flt (Fin 98) (Fin (197 / 2))" by simp
  from rule l19 u19 have "sig ! 19 = Fin 1 \<longleftrightarrow> flt (?cl ! 19) (Fin (197 / 2))" by blast
  with x lt have s19: "sig ! 19 = Fin 1" by simp
  from c n i x lt cell_after_Inr [OF run lo, of 19] cell_after_Inr [OF run up, of 19]
    cell_after_Inr [OF run sg, of 19] l19 u19 s19
  show ?thesis by simp
qed

section \<open>SMA Crossover signals\<close>

text \<open>
  Claim C6. Under the SMA Crossover strategy, at every bar where both moving averages are
  defined (finite), the signal is 1 (Buy) iff \<open>sma_short > sma_long\<close>, -1 (Sell) iff
  \<open>sma_short < sma_long\<close> and 0 (Hold) iff they are equal: a comparison of levels at
  that bar, with no reference to the bar before.
\<close>

theorem sma_crossover_signal:
  assumes "getitem \<sigma> a ''Close'' = Inr cl" and "length cl = length (index (\<sigma> a))"
    and "i < length cl"
  shows "\<exists>\<sigma>' short long sig.
           apply_strategy \<sigma> a ''SMA Crossover'' = Inr (\<sigma>', a) \<and>
           getitem \<sigma>' a ''SMA_Short'' = Inr short \<and> short = rolling_mean 50 cl \<and>
           getitem \<sigma>' a ''SMA_Long'' = Inr long \<and> long = rolling_mean 200 cl \<and>
           getitem \<sigma>' a ''Signal'' = Inr sig \<and>
           (\<forall>s l. short ! i = Fin s \<and> long ! i = Fin l \<longrightarrow>
              (sig ! i = Fin 1 \<longleftrightarrow> l < s) \<and>
              (sig ! i = Fin (- 1) \<longleftrightarrow> s < l) \<and>
              (sig ! i = Fin 0 \<longleftrightarrow> s = l))"
proof -
  let ?sh = "rolling_mean 50 cl"
  let ?lg = "rolling_mean 200 cl"
  let ?sig = "signal_column (series_gt ?sh ?lg) (series_lt ?sh ?lg) (length (index (\<sigma> a)))"
  let ?\<sigma>' = "setitem (setitem (setitem \<sigma> a ''SMA_Short'' ?sh) a ''SMA_Long'' ?lg) a ''Signal'' ?sig"
  have run: "apply_strategy \<sigma> a ''SMA Crossover'' = Inr (?\<sigma>', a)"
    by (rule apply_strategy_sma_result [OF assms(1)])
  have g1: "getitem ?\<sigma>' a ''SMA_Short'' = Inr ?sh" by (simp add: getitem_setitem)
  have g2: "getitem ?\<sigma>' a ''SMA_Long'' = Inr ?lg" by (simp add: getitem_setitem)
  have g3: "getitem ?\<sigma>' a ''Signal'' = Inr ?sig" by (simp add: getitem_setitem)
  have nth: "?sig ! i = (if flt (?sh ! i) (?lg ! i) then Fin (- 1)
                         else if fgt (?sh ! i) (?lg ! i) then Fin 1 else Fin 0)"
    using assms(2,3) by (simp add: nth_signal_column nth_series)
  have key: "\<forall>s l. ?sh ! i = Fin s \<and> ?lg ! i = Fin l \<longrightarrow>
              (?sig ! i = Fin 1 \<longleftrightarrow> l < s) \<and>
              (?sig ! i = Fin (- 1) \<longleftrightarrow> s < l) \<and>
              (?sig ! i = Fin 0 \<longleftrightarrow> s = l)"
    unfolding nth by (auto simp: fgt_def)
  from run g1 g2 g3 key show ?thesis by blast
qed

text \<open>
  C6 on 150 bars at 50 followed by 50 bars at 100: at bar 199 the short average is 100, the
  long one 62.5, and the signal is Buy.
\<close>

theorem sma_crossover_signal_witness:
  "getitem (store_of (bars rally_closes)) 0 ''Close'' = Inr (map Fin rally_closes) \<and>
   length (map Fin rally_closes) = length (index (store_of (bars rally_closes) 0)) \<and>
   199 < length (map Fin rally_closes) \<and>
   cell_after (apply_strategy (store_of (bars rally_closes)) 0 ''SMA Crossover'') 0 ''SMA_Short'' 199
     = Inr (Fin 100) \<and>
   cell_after (apply_strategy (store_of (bars rally_closes)) 0 ''SMA Crossover'') 0 ''SMA_Long'' 199
     = Inr (Fin (125 / 2)) \<and>
   cell_after (apply_strategy (store_of (bars rally_closes)) 0 ''SMA Crossover'') 0 ''Signal'' 199
     = Inr (Fin 1)"
proof -
  let ?ex = "store_of (bars rally_closes)"
  let ?cl = "map Fin rally_closes"
  have c: "getitem ?ex 0 ''Close'' = Inr ?cl" by (rule getitem_bars)
  have n: "length ?cl = length (index (?ex 0))" by (simp add: length_index_bars)
  have i: "199 < length ?cl" by (simp add: rally_closes_def)
  have i': "199 < length rally_closes" by (simp add: rally_closes_def)
  have sh: "rolling_mean 50 ?cl ! 199 = Fin 100"
    using rolling_mean_map_Fin [of 50 199 rally_closes] i'
    by (simp only: rally_short_window) (simp add: mean_replicate)
  have lg: "rolling_mean 200 ?cl ! 199 = Fin (125 / 2)"
    using rolling_mean_map_Fin [of 200 199 rally_closes] i'
    by (simp only: rally_long_window) (simp add: mean_rally)
  from sma_crossover_signal [OF c n i]
  obtain \<sigma>' short long sig where
    run: "apply_strategy ?ex 0 ''SMA Crossover'' = Inr (\<sigma>', 0)" and
    g1: "getitem \<sigma>' 0 ''SMA_Short'' = Inr short" and s_def: "short = rolling_mean 50 ?cl" and
    g2: "getitem \<sigma>' 0 ''SMA_Long'' = Inr long" and l_def: "long = rolling_mean 200 ?cl" and
    sg: "getitem \<sigma>' 0 ''Signal'' = Inr sig" and
    rule: "\<forall>s l. short ! 199 = Fin s \<and> long ! 199 = Fin l \<longrightarrow> (sig ! 199 = Fin 1 \<longleftrightarrow> l < s)"
    by blast
  have s199: "short ! 199 = Fin 100" unfolding s_def by (rule sh)
  have l199: "long ! 199 = Fin (125 / 2)" unfolding l_def by (rule lg)
  from rule s199 l199 have "sig ! 199 = Fin 1 \<longleftrightarrow> (125 / 2 :: real) < 100" by blast
  then have sig199: "sig ! 199 = Fin 1" by simp
  from c n i cell_after_Inr [OF run g1, of 199] cell_after_Inr [OF run g2, of 199]
    cell_after_Inr [OF run sg, of 199] s199 l199 sig199
  show ?thesis by simp
qed

section \<open>Undefined indicators\<close>

text \<open>
  Claim C7. Under either strategy the rolling statistics of the first \<open>window - 1\<close> bars
  are NaN (all bars, when the series is shorter than the window), and at every bar where a
  rolling statistic is NaN the signal is 0 (Hold); for Bollinger Bands both bands are NaN
  there as well.
\<close>

theorem undefined_indicator_hold:
  assumes "getitem \<sigma> a ''Close'' = Inr cl" and "length cl = length (index (\<sigma> a))"
  shows "(\<exists>\<sigma>' sma std upper lower sig.
            apply_strategy \<sigma> a ''Bollinger Bands'' = Inr (\<sigma>', a) \<and>
            getitem \<sigma>' a ''SMA'' = Inr sma \<and> getitem \<sigma>' a ''STD'' = Inr std \<and>
            getitem \<sigma>' a ''Upper Band'' = Inr upper \<and> getitem \<sigma>' a ''Lower Band'' = Inr lower \<and>
            getitem \<sigma>' a ''Signal'' = Inr sig \<and> length sig = length cl \<and>
            (\<forall>i<length cl.
               (i + 1 < 20 \<longrightarrow> sma ! i = NaN \<and> std ! i = NaN) \<and>
               (sma ! i = NaN \<or> std ! i = NaN \<longrightarrow>
                  upper ! i = NaN \<and> lower ! i = NaN \<and> sig ! i = Fin 0))) \<and>
         (\<exists>\<sigma>' short long sig.
            apply_strategy \<sigma> a ''SMA Crossover'' = Inr (\<sigma>', a) \<and>
            getitem \<sigma>' a ''SMA_Short'' = Inr short \<and> getitem \<sigma>' a ''SMA_Long'' = Inr long \<and>
            getitem \<sigma>' a ''Signal'' = Inr sig \<and> length sig = length cl \<and>
            (\<forall>i<length cl.
               (i + 1 < 50 \<longrightarrow> short ! i = NaN) \<and> (i + 1 < 200 \<longrightarrow> long ! i = NaN) \<and>
               (short ! i = NaN \<or> long ! i = NaN \<longrightarrow> sig ! i = Fin 0)))"
proof
  let ?sma = "rolling_mean 20 cl"
  let ?std = "rolling_std 20 cl"
  let ?lo = "series_sub ?sma (scalar_mul (Fin 2) ?std)"
  let ?up = "series_add ?sma (scalar_mul (Fin 2) ?std)"
  let ?sig = "signal_column (series_lt cl ?lo) (series_gt cl ?up) (length (index (\<sigma> a)))"
  let ?\<sigma>' = "setitem (setitem (setitem (setitem (setitem \<sigma> a ''SMA'' ?sma)
            a ''STD'' ?std) a ''Upper Band'' ?up) a ''Lower Band'' ?lo) a ''Signal'' ?sig"
  have run: "apply_strategy \<sigma> a ''Bollinger Bands'' = Inr (?\<sigma>', a)"
    by (rule apply_strategy_bollinger_result [OF assms(1)])
  have g1: "getitem ?\<sigma>' a ''SMA'' = Inr ?sma" by (simp add: getitem_setitem)
  have g2: "getitem ?\<sigma>' a ''STD'' = Inr ?std" by (simp add: getitem_setitem)
  have g3: "getitem ?\<sigma>' a ''Upper Band'' = Inr ?up" by (simp add: getitem_setitem)
  have g4: "getitem ?\<sigma>' a ''Lower Band'' = Inr ?lo" by (simp add: getitem_setitem)
  have g5: "getitem ?\<sigma>' a ''Signal'' = Inr ?sig" by (simp add: getitem_setitem)
  have len: "length ?sig = length cl"
    using assms(2) by (simp add: signal_column_def)
  have key: "\<forall>i<length cl.
               (i + 1 < 20 \<longrightarrow> ?sma ! i = NaN \<and> ?std ! i = NaN) \<and>
               (?sma ! i = NaN \<or> ?std ! i = NaN \<longrightarrow>
                  ?up ! i = NaN \<and> ?lo ! i = NaN \<and> ?sig ! i = Fin 0)"
  proof (intro allI impI)
    fix i assume i: "i < length cl"
    have early: "i + 1 < 20 \<longrightarrow> ?sma ! i = NaN \<and> ?std ! i = NaN"
      using i by (simp add: rolling_mean_def rolling_std_def nth_rolling)
    have u: "?up ! i = fadd (?sma ! i) (fmul (Fin 2) (?std ! i))"
      using i by (simp add: nth_series)
    have l: "?lo ! i = fsub (?sma ! i) (fmul (Fin 2) (?std ! i))"
      using i by (simp add: nth_series)
    have nth: "?sig ! i = (if fgt (cl ! i) (?up ! i) then Fin (- 1)
                         else if flt (cl ! i) (?lo ! i) then Fin 1 else Fin 0)"
      using assms(2) i by (simp add: nth_signal_column nth_series)
    have undef: "?sma ! i = NaN \<or> ?std ! i = NaN \<longrightarrow>
                  ?up ! i = NaN \<and> ?lo ! i = NaN \<and> ?sig ! i = Fin 0"
    proof
      assume "?sma ! i = NaN \<or> ?std ! i = NaN"
      then have "?up ! i = NaN \<and> ?lo ! i = NaN"
        unfolding u l by (rule band_NaN)
      then show "?up ! i = NaN \<and> ?lo ! i = NaN \<and> ?sig ! i = Fin 0"
        unfolding nth by simp
    qed
    from early undef show "(i + 1 < 20 \<longrightarrow> ?sma ! i = NaN \<and> ?std ! i = NaN) \<and>
               (?sma ! i = NaN \<or> ?std ! i = NaN \<longrightarrow>
                  ?up ! i = NaN \<and> ?lo ! i = NaN \<and> ?sig ! i = Fin 0)" by blast
  qed
  from run g1 g2 g3 g4 g5 len key
  show "\<exists>\<sigma>' sma std upper lower sig.
            apply_strategy \<sigma> a ''Bollinger Bands'' = Inr (\<sigma>', a) \<and>
            getitem \<sigma>' a ''SMA'' = Inr sma \<and> getitem \<sigma>' a ''STD'' = Inr std \<and>
            getitem \<sigma>' a ''Upper Band'' = Inr upper \<and> getitem \<sigma>' a ''Lower Band'' = Inr lower \<and>
            getitem \<sigma>' a ''Signal'' = Inr sig \<and> length sig = length cl \<and>
            (\<forall>i<length cl.
               (i + 1 < 20 \<longrightarrow> sma ! i = NaN \<and> std ! i = NaN) \<and>
               (sma ! i = NaN \<or> std ! i = NaN \<longrightarrow>
                  upper ! i = NaN \<and> lower ! i = NaN \<and> sig ! i = Fin 0))"
    by blast
next
  let ?sh = "rolling_mean 50 cl"
  let ?lg = "rolling_mean 200 cl"
  let ?sig = "signal_column (series_gt ?sh ?lg) (series_lt ?sh ?lg) (length (index (\<sigma> a)))"
  let ?\<sigma>' = "setitem (setitem (setitem \<sigma> a ''SMA_Short'' ?sh) a ''SMA_Long'' ?lg) a ''Signal'' ?sig"
  have run: "apply_strategy \<sigma> a ''SMA Crossover'' = Inr (?\<sigma>', a)"
    by (rule apply_strategy_sma_result [OF assms(1)])
  have g1: "getitem ?\<sigma>' a ''SMA_Short'' = Inr ?sh" by (simp add: getitem_setitem)
  have g2: "getitem ?\<sigma>' a ''SMA_Long'' = Inr ?lg" by (simp add: getitem_setitem)
  have g3: "getitem ?\<sigma>' a ''Signal'' = Inr ?sig" by (simp add: getitem_setitem)
  have len: "length ?sig = length cl"
    using assms(2) by (simp add: signal_column_def)
  have key: "\<forall>i<length cl.
               (i + 1 < 50 \<longrightarrow> ?sh ! i = NaN) \<and> (i + 1 < 200 \<longrightarrow> ?lg ! i = NaN) \<and>
               (?sh ! i = NaN \<or> ?lg ! i = NaN \<longrightarrow> ?sig ! i = Fin 0)"
  proof (intro allI impI)
    fix i assume i: "i < length cl"
    have e1: "i + 1 < 50 \<longrightarrow> ?sh ! i = NaN"
      using i by (simp add: rolling_mean_def nth_rolling)
    have e2: "i + 1 < 200 \<longrightarrow> ?lg ! i = NaN"
      using i by (simp add: rolling_mean_def nth_rolling)
    have nth: "?sig ! i = (if flt (?sh ! i) (?lg ! i) then Fin (- 1)
                         else if fgt (?sh ! i) (?lg ! i) then Fin 1 else Fin 0)"
      using assms(2) i by (simp add: nth_signal_column nth_series)
    have undef: "?sh ! i = NaN \<or> ?lg ! i = NaN \<longrightarrow> ?sig ! i = Fin 0"
      unfolding nth by (auto simp: fgt_def)
    from e1 e2 undef show "(i + 1 < 50 \<longrightarrow> ?sh ! i = NaN) \<and> (i + 1 < 200 \<longrightarrow> ?lg ! i = NaN) \<and>
               (?sh ! i = NaN \<or> ?lg ! i = NaN \<longrightarrow> ?sig ! i = Fin 0)" by blast
  qed
  from run g1 g2 g3 len key
  show "\<exists>\<sigma>' short long sig.
            apply_strategy \<sigma> a ''SMA Crossover'' = Inr (\<sigma>', a) \<and>
            getitem \<sigma>' a ''SMA_Short'' = Inr short \<and> getitem \<sigma>' a ''SMA_Long'' = Inr long \<and>
            getitem \<sigma>' a ''Signal'' = Inr sig \<and> length sig = length cl \<and>
            (\<forall>i<length cl.
               (i + 1 < 50 \<longrightarrow> short ! i = NaN) \<and> (i + 1 < 200 \<longrightarrow> long ! i = NaN) \<and>
               (short ! i = NaN \<or> long ! i = NaN \<longrightarrow> sig ! i = Fin 0))"
    by blast
qed

text \<open>
  C7 on 19 bars, one fewer than the Bollinger window: SMA, STD and both bands are NaN at
  the last bar, and the Signal column is 0 at all 19 bars under both strategies.
\<close>

theorem undefined_indicator_hold_witness:
  "getitem (store_of (bars (replicate 19 50))) 0 ''Close'' = Inr (map Fin (replicate 19 50)) \<and>
   length (map Fin (replicate 19 (50::real))) = length (index (store_of (bars (replicate 19 50)) 0)) \<and>
   18 < length (map Fin (replicate 19 (50::real))) \<and> (18::nat) + 1 < 20 \<and>
   cell_after (apply_strategy (store_of (bars (replicate 19 50))) 0 ''Bollinger Bands'') 0 ''SMA'' 18
     = Inr NaN \<and>
   cell_after (apply_strategy (store_of (bars (replicate 19 50))) 0 ''Bollinger Bands'') 0 ''STD'' 18
     = Inr NaN \<and>
   cell_after (apply_strategy (store_of (bars (replicate 19 50))) 0 ''Bollinger Bands'') 0
     ''Upper Band'' 18 = Inr NaN \<and>
   cell_after (apply_strategy (store_of (bars (replicate 19 50))) 0 ''Bollinger Bands'') 0
     ''Lower Band'' 18 = Inr NaN \<and>
   column_after (apply_strategy (store_of (bars (replicate 19 50))) 0 ''Bollinger Bands'') 0 ''Signal''
     = Inr (replicate 19 (Fin 0)) \<and>
   column_after (apply_strategy (store_of (bars (replicate 19 50))) 0 ''SMA Crossover'') 0 ''Signal''
     = Inr (replicate 19 (Fin 0))"
proof -
  let ?ex = "store_of (bars (replicate 19 50))"
  let ?cl = "map Fin (replicate 19 (50::real))"
  have c: "getitem ?ex 0 ''Close'' = Inr ?cl" by (rule getitem_bars)
  have n: "length ?cl = length (index (?ex 0))" by (simp add: length_index_bars)
  have i: "18 < length ?cl" by simp
  have all_zero: "sig = replicate 19 (Fin 0)"
    if "length sig = length ?cl" and "\<forall>i<length ?cl. sig ! i = Fin 0" for sig :: "fl list"
    using that by (simp add: list_eq_iff_nth_eq)
  from undefined_indicator_hold [OF c n]
  obtain \<sigma>' sma std upper lower sig \<sigma>'' short long sig2 where
    run: "apply_strategy ?ex 0 ''Bollinger Bands'' = Inr (\<sigma>', 0)" and
    g1: "getitem \<sigma>' 0 ''SMA'' = Inr sma" and g2: "getitem \<sigma>' 0 ''STD'' = Inr std" and
    g3: "getitem \<sigma>' 0 ''Upper Band'' = Inr upper" and
    g4: "getitem \<sigma>' 0 ''Lower Band'' = Inr lower" and
    g5: "getitem \<sigma>' 0 ''Signal'' = Inr sig" and len: "length sig = length ?cl" and
    bb: "\<forall>i<length ?cl.
               (i + 1 < 20 \<longrightarrow> sma ! i = NaN \<and> std ! i = NaN) \<and>
               (sma ! i = NaN \<or> std ! i = NaN \<longrightarrow>
                  upper ! i = NaN \<and> lower ! i = NaN \<and> sig ! i = Fin 0)" and
    run2: "apply_strategy ?ex 0 ''SMA Crossover'' = Inr (\<sigma>'', 0)" and
    h3: "getitem \<sigma>'' 0 ''Signal'' = Inr sig2" and len2: "length sig2 = length ?cl" and
    sm: "\<forall>i<length ?cl.
               (i + 1 < 50 \<longrightarrow> short ! i = NaN) \<and> (i + 1 < 200 \<longrightarrow> long ! i = NaN) \<and>
               (short ! i = NaN \<or> long ! i = NaN \<longrightarrow> sig2 ! i = Fin 0)"
    by blast
  from bb i have b18: "sma ! 18 = NaN \<and> std ! 18 = NaN \<and> upper ! 18 = NaN \<and> lower ! 18 = NaN"
    by simp
  from bb have "\<forall>i<length ?cl. sig ! i = Fin 0" by simp
  with len have z1: "sig = replicate 19 (Fin 0)" by (rule all_zero)
  from sm have "\<forall>i<length ?cl. sig2 ! i = Fin 0" by simp
  with len2 have z2: "sig2 = replicate 19 (Fin 0)" by (rule all_zero)
  have col1: "column_after (apply_strategy ?ex 0 ''Bollinger Bands'') 0 ''Signal'' = Inr sig"
    by (simp add: column_after_def run g5 ebind_Inr)
  have col2: "column_after (apply_strategy ?ex 0 ''SMA Crossover'') 0 ''Signal'' = Inr sig2"
    by (simp add: column_after_def run2 h3 ebind_Inr)
  from c n cell_after_Inr [OF run g1, of 18] cell_after_Inr [OF run g2, of 18]
    cell_after_Inr [OF run g3, of 18] cell_after_Inr [OF run g4, of 18] b18 col1 col2 z1 z2
  show ?thesis by simp
qed

section \<open>The ROI invariant\<close>

text \<open>
  Claim C9, as amended. For every non-empty series, every principal and every style
  string (one that is not among the three names has multiplier 1), the returned roi is
  \<open>((finalGrowth - principal) / principal) * 100\<close> of the returned growth, each operation
  rounded as the arithmetic in use rounds it; in exact arithmetic this is
  \<open>(finalGrowth / principal - 1) * 100\<close>. In float64 the two formulas agree up to
  rounding only.
\<close>

theorem roi_formula:
  assumes "getitem \<sigma> a ''Close'' = Inr cl" and "cl \<noteq> []"
  shows "(\<exists>\<sigma>' g r. calculate_investment_growth_rnd rnd \<sigma> a p style = Inr (\<sigma>', g, r) \<and>
            r = roi_percent_rnd rnd g p) \<and>
         (\<exists>\<sigma>' g r. calculate_investment_growth \<sigma> a p style = Inr (\<sigma>', g, r) \<and>
            calculate_investment_growth_rnd (\<lambda>x. x) \<sigma> a p style = Inr (\<sigma>', g, r) \<and>
            r = roi_percent_rnd (\<lambda>x. x) g p \<and> r = roi_percent_spec g p) \<and>
         (style \<noteq> ''Aggressive'' \<and> style \<noteq> ''Moderate'' \<and> style \<noteq> ''Passive''
            \<longrightarrow> multiplier_of style = 1)"
proof (intro conjI)
  from growth_rnd_result [OF assms, of rnd p style]
  show "\<exists>\<sigma>' g r. calculate_investment_growth_rnd rnd \<sigma> a p style = Inr (\<sigma>', g, r) \<and>
            r = roi_percent_rnd rnd g p"
    by blast
next
  have e: "roi_percent_rnd (\<lambda>x. x) g p = roi_percent_spec g p" for g
    by (simp add: roi_percent_rnd_def rounded_exact roi_code_eq_spec)
  from growth_rnd_result [OF assms, of "\<lambda>x. x" p style]
  show "\<exists>\<sigma>' g r. calculate_investment_growth \<sigma> a p style = Inr (\<sigma>', g, r) \<and>
            calculate_investment_growth_rnd (\<lambda>x. x) \<sigma> a p style = Inr (\<sigma>', g, r) \<and>
            r = roi_percent_rnd (\<lambda>x. x) g p \<and> r = roi_percent_spec g p"
    unfolding growth_rnd_exact e by auto
next
  show "style \<noteq> ''Aggressive'' \<and> style \<noteq> ''Moderate'' \<and> style \<noteq> ''Passive''
            \<longrightarrow> multiplier_of style = 1"
    by (simp add: multiplier_of_simps)
qed

text \<open>
  C9 at closes 100, 110, 121 and principal 10000: in float64 the growth is 12100 and the
  roi 21, the result of the first formula; in exact arithmetic the unrecognised style
  Swing gives 12100 and 21 as well.
\<close>

theorem roi_formula_witness:
  "getitem (store_of (bars [100, 110, 121])) 0 ''Close'' = Inr [Fin 100, Fin 110, Fin 121] \<and>
   [Fin 100, Fin 110, Fin 121] \<noteq> [] \<and>
   map_sum id snd
     (calculate_investment_growth_rnd round64 (store_of (bars [100, 110, 121])) 0 10000 ''Moderate'')
     = Inr (Fin 12100, Fin 21) \<and>
   roi_percent_rnd round64 (Fin 12100) 10000 = Fin 21 \<and>
   map_sum id snd (calculate_investment_growth (store_of (bars [100, 110, 121])) 0 10000 ''Swing'')
     = Inr (Fin 12100, Fin 21) \<and>
   roi_percent_spec (Fin 12100) 10000 = Fin 21"
proof -
  let ?ex = "store_of (bars [100, 110, 121])"
  have c: "getitem ?ex 0 ''Close'' = Inr [Fin 100, Fin 110, Fin 121]"
    using getitem_bars [of "[100, 110, 121]" 0] by simp
  have n: "[Fin 100, Fin 110, Fin 121] \<noteq> []" by simp
  have g64: "map_sum id (fst \<circ> snd) (calculate_investment_growth_rnd round64 ?ex 0 10000 ''Moderate'')
      = Inr (Fin 12100)"
    using growth_rnd_result [OF c n, of round64 10000 "''Moderate''"]
    by (auto simp: rounded_Fin round64_def round_half_even_def multiplier_of_simps)
  have r64: "roi_percent_rnd round64 (Fin 12100) 10000 = Fin 21"
    by (simp add: roi_percent_rnd_def rounded_Fin round64_def round_half_even_def fsub_def)
  have gx: "map_sum id (fst \<circ> snd) (calculate_investment_growth ?ex 0 10000 ''Swing'') = Inr (Fin 12100)"
    by (simp add: growth_result [OF c n] growth_value_def multiplier_of_simps)
  have rx: "roi_percent_spec (Fin 12100) 10000 = Fin 21"
    by (simp add: roi_percent_spec_def fsub_def)
  note th = roi_formula [OF c n]
  from th [of round64 10000 "''Moderate''", THEN conjunct1] g64 r64
  have m: "map_sum id snd (calculate_investment_growth_rnd round64 ?ex 0 10000 ''Moderate'')
     = Inr (Fin 12100, Fin 21)"
    by auto
  from th [of round64 10000 "''Swing''", THEN conjunct2, THEN conjunct1] gx rx
  have s: "map_sum id snd (calculate_investment_growth ?ex 0 10000 ''Swing'') = Inr (Fin 12100, Fin 21)"
    by auto
  from c n m r64 s rx show ?thesis by simp
qed

text \<open>
  Claim C9 as stated asks for \<open>roi = (finalGrowth / principal - 1) * 100\<close> exactly. At
  closes 100, 110, 121, principal 10000 and style Moderate the float64 growth is 12100 and
  the returned roi is 21, while \<open>(12100 / 10000 - 1) * 100\<close> in float64 is
  \<open>5910974510923775 / 2^48\<close>, the float64 number just below 21 (20.999999999999996).
\<close>

theorem roi_float64_counterexample:
  "map_sum id snd
     (calculate_investment_growth_rnd round64 (store_of (bars [100, 110, 121])) 0 10000 ''Moderate'')
     = Inr (Fin 12100, Fin 21) \<and>
   roi_percent_spec_rnd round64 (Fin 12100) 10000 = Fin (5910974510923775 / 2 ^ 48) \<and>
   Fin (5910974510923775 / 2 ^ 48) \<noteq> Fin 21"
proof -
  let ?ex = "store_of (bars [100, 110, 121])"
  have c: "getitem ?ex 0 ''Close'' = Inr [Fin 100, Fin 110, Fin 121]"
    using getitem_bars [of "[100, 110, 121]" 0] by simp
  have n: "[Fin 100, Fin 110, Fin 121] \<noteq> []" by simp
  have r64: "roi_percent_rnd round64 (Fin 12100) 10000 = Fin 21"
    by (simp add: roi_percent_rnd_def rounded_Fin round64_def round_half_even_def fsub_def)
  have m: "map_sum id snd (calculate_investment_growth_rnd round64 ?ex 0 10000 ''Moderate'')
     = Inr (Fin 12100, Fin 21)"
    using growth_rnd_result [OF c n, of round64 10000 "''Moderate''"]
    by (auto simp: rounded_Fin round64_def round_half_even_def multiplier_of_simps r64)
  have s: "roi_percent_spec_rnd round64 (Fin 12100) 10000 = Fin (5910974510923775 / 2 ^ 48)"
    by (simp add: roi_percent_spec_rnd_def rounded_Fin round64_def round_half_even_def fsub_def)
  have d: "Fin (5910974510923775 / 2 ^ 48) \<noteq> Fin 21" by simp
  from m s d show ?thesis by simp
qed

section \<open>Strategy dispatch\<close>

text \<open>
  Claim C10. For every strategy string other than "Bollinger Bands" and "SMA Crossover",
  \<open>apply_strategy\<close> raises no error and returns the reference it was given with the
  store untouched: no indicator column and no Signal column is added to any frame.
\<close>

theorem apply_strategy_unrecognized:
  "strategy \<noteq> ''Bollinger Bands'' \<Longrightarrow> strategy \<noteq> ''SMA Crossover'' \<Longrightarrow>
   apply_strategy \<sigma> data strategy = Inr (\<sigma>, data)"
  by (simp add: apply_strategy_def)

theorem apply_strategy_unrecognized_witness:
  "''MACD'' \<noteq> ''Bollinger Bands'' \<and> ''MACD'' \<noteq> ''SMA Crossover'' \<and>
   apply_strategy (\<lambda>_. \<lparr>index = [1, 2], cols = [''Close'' \<mapsto> [Fin 100, Fin 110]]\<rparr>) 0 ''MACD''
     = Inr (\<lambda>_. \<lparr>index = [1, 2], cols = [''Close'' \<mapsto> [Fin 100, Fin 110]]\<rparr>, 0)"
  using apply_strategy_unrecognized
    [of "''MACD''" "\<lambda>_. \<lparr>index = [1, 2], cols = [''Close'' \<mapsto> [Fin 100, Fin 110]]\<rparr>" 0]
  by simp

end
